theory Spec2Isabelle
  imports Complex_Main
begin

section \<open>Errors, numbers and strings\<close>

text \<open>
  The source raises plain \<^verbatim>\<open>Error\<close> objects told apart by their message; the
  constructors below name them after the specification's taxonomy:
  \<^item> \<open>UnsupportedChain\<close>: \<^verbatim>\<open>Chain ... not supported\<close> (constructor and \<^verbatim>\<open>network\<close>);
  \<^item> \<open>ChainNotFound\<close>: \<^verbatim>\<open>Chain  not found\<close> (no viem chain object for the id);
  \<^item> \<open>NoProviderFound\<close>: \<^verbatim>\<open>No Ethereum provider found\<close>;
  \<^item> \<open>NoWalletClient\<close>: \<^verbatim>\<open>No wallet client found\<close>;
  \<^item> \<open>InvalidCurve\<close>: \<^verbatim>\<open>Invalid step data. ...\<close>;
  \<^item> \<open>External\<close>: an error raised by a collaborator (viem, the wallet, the RPC
    endpoint, a callback of the caller), identified by its message.
\<close>

datatype err =
    UnsupportedChain
  | ChainNotFound
  | NoProviderFound
  | NoWalletClient
  | InvalidCurve
  | External string

definition bindE :: "'e + 'a \<Rightarrow> ('a \<Rightarrow> 'e + 'b) \<Rightarrow> 'e + 'b" where
  "bindE m f = (case m of Inl e \<Rightarrow> Inl e | Inr x \<Rightarrow> f x)"

text \<open>\<^verbatim>\<open>xs.map(f)\<close> where \<open>f\<close> may throw: the first exception ends the traversal.\<close>

fun mapE :: "('a \<Rightarrow> 'e + 'b) \<Rightarrow> 'a list \<Rightarrow> 'e + 'b list" where
  "mapE f [] = Inr []"
| "mapE f (x # xs) = bindE (f x) (\<lambda>y. bindE (mapE f xs) (\<lambda>ys. Inr (y # ys)))"

text \<open>
  A JavaScript \<^verbatim>\<open>number\<close> is taken as the rational value of the decimal string it
  prints as; \<^verbatim>\<open>NaN\<close> and the infinities have no value here (where a method can
  receive them, its argument type says so). Products of numbers
  (\<^verbatim>\<open>mintRoyalty * 100\<close>) are exact here and rounded to a double in the source.
  The rendering of a number as a decimal string and viem's \<^verbatim>\<open>parseUnits\<close> are not
  part of the sources, so the unit-scaling function \<^verbatim>\<open>wei(num, decimals)\<close>
  (\<^verbatim>\<open>parseUnits(handleScientificNotation(num.toString()), decimals)\<close>) is a
  parameter of the builders, of the type below; it may throw.
\<close>

type_synonym number = rat

type_synonym wei_fun = "number \<Rightarrow> nat \<Rightarrow> err + int"

text \<open>
  The instance of \<^verbatim>\<open>wei\<close> used where a statement is evaluated on concrete numbers.
  Below \<^verbatim>\<open>1e21\<close> \<^verbatim>\<open>handleScientificNotation\<close> yields plain decimal digits, of
  which \<^verbatim>\<open>parseUnits\<close> keeps \<open>decimals\<close> fraction digits, rounding the magnitude
  half up. From \<^verbatim>\<open>1e21\<close> on, \<^verbatim>\<open>toString\<close> prints an exponent,
  \<^verbatim>\<open>handleScientificNotation\<close> replaces it by \<^verbatim>\<open>toLocaleString()\<close> with its
  grouping separators, and \<^verbatim>\<open>parseUnits\<close> throws. (For magnitudes so small that
  \<^verbatim>\<open>toFixed\<close> is asked for more than 100 digits the source throws as well; the
  instance is not used there.)
\<close>

definition wei_decimal :: wei_fun where
  "wei_decimal num decimals =
     (if 10 ^ 21 \<le> \<bar>num\<bar> then Inl (External ''InvalidDecimalNumberError'')
      else if num < 0 then Inr (- round (\<bar>num\<bar> * 10 ^ decimals))
      else Inr (round (num * 10 ^ decimals)))"

text \<open>
  ASCII case mapping for \<^verbatim>\<open>toLowerCase\<close> and \<^verbatim>\<open>toUpperCase\<close>: characters other
  than the 26 letters are left as they are, where JavaScript maps letters outside ASCII
  too. The registry names are ASCII.
\<close>

definition upper_letters :: string where
  "upper_letters = ''ABCDEFGHIJKLMNOPQRSTUVWXYZ''"

definition lower_letters :: string where
  "lower_letters = ''abcdefghijklmnopqrstuvwxyz''"

definition toLowerCase :: "string \<Rightarrow> string" where
  "toLowerCase s =
     map (\<lambda>c. case map_of (zip upper_letters lower_letters) c of Some l \<Rightarrow> l | None \<Rightarrow> c) s"

definition toUpperCase :: "string \<Rightarrow> string" where
  "toUpperCase s =
     map (\<lambda>c. case map_of (zip lower_letters upper_letters) c of Some u \<Rightarrow> u | None \<Rightarrow> c) s"

section \<open>Bonding-curve step arrays: merging steps of equal price\<close>

text \<open>
  Both argument builders (\<^verbatim>\<open>BondContract.generateCreateArgs\<close> and
  \<^verbatim>\<open>BondContractLogic.generateCreateArgs\<close>) run the same loop over the two bigint
  arrays \<^verbatim>\<open>stepRanges\<close> and \<^verbatim>\<open>stepPrices\<close>:
  \<^verbatim>\<open>
  for (let i = 0; i < stepPrices.length; i++) {
    if (stepPrices[i] === stepPrices[i + 1]) {
      stepRanges.splice(i, 1);
      stepPrices.splice(i, 1);
      i--;
    }
  }
  \<close>
  \<^verbatim>\<open>xs.splice(i, 1)\<close> removes the element at index \<open>i\<close> and does nothing when
  \<open>i\<close> is beyond the end. \<^verbatim>\<open>stepPrices[i + 1]\<close> is \<^verbatim>\<open>undefined\<close> when
  \<open>i + 1\<close> is the length, and a bigint is never \<^verbatim>\<open>===\<close> to it. After a removal
  the index is decremented and then incremented by the loop header, so the next
  iteration tests the same index again.
\<close>

definition splice1 :: "nat \<Rightarrow> 'a list \<Rightarrow> 'a list" where
  "splice1 i xs = take i xs @ drop (Suc i) xs"

function merge_from :: "nat \<Rightarrow> int list \<Rightarrow> int list \<Rightarrow> int list \<times> int list" where
  "merge_from i stepRanges stepPrices =
     (if i < length stepPrices then
        (if Suc i < length stepPrices \<and> stepPrices ! i = stepPrices ! Suc i
         then merge_from i (splice1 i stepRanges) (splice1 i stepPrices)
         else merge_from (Suc i) stepRanges stepPrices)
      else (stepRanges, stepPrices))"
  by pat_completeness auto
termination
  by (relation "measure (\<lambda>(i, rs, ps). length ps - i)") (auto simp: splice1_def)

definition merge_same_price :: "int list \<Rightarrow> int list \<Rightarrow> int list \<times> int list" where
  "merge_same_price stepRanges stepPrices = merge_from 0 stepRanges stepPrices"

text \<open>No two neighbouring entries of a price array are equal.\<close>

fun no_adjacent_equal :: "int list \<Rightarrow> bool" where
  "no_adjacent_equal [] = True"
| "no_adjacent_equal [p] = True"
| "no_adjacent_equal (p # q # ps) = (p \<noteq> q \<and> no_adjacent_equal (q # ps))"

text \<open>
  The specification's wording of the merge, on steps \<open>(rangeEnd, price)\<close>:
  \<open>price_runs\<close> cuts a step sequence into its maximal runs of equal price, and the
  merged sequence is to consist of the last step of every run. \<open>keep_last\<close> is the
  same left-to-right scan as the loop, on a list of steps.
\<close>

type_synonym step = "int \<times> int"

fun price_runs :: "step list \<Rightarrow> step list list" where
  "price_runs [] = []"
| "price_runs (s # ss) =
     (case price_runs ss of
        [] \<Rightarrow> [[s]]
      | r # rest \<Rightarrow> if snd s = snd (hd r) then (s # r) # rest else [s] # r # rest)"

fun keep_last :: "step list \<Rightarrow> step list" where
  "keep_last [] = []"
| "keep_last [s] = [s]"
| "keep_last (s # t # ss) =
     (if snd s = snd t then keep_last (t # ss) else s # keep_last (t # ss))"

section \<open>The argument builders\<close>

datatype tokenType = ERC20 | ERC1155

record reserveToken =
  address :: string
  decimals :: nat

text \<open>
  \<^verbatim>\<open>CreateTokenParams\<close> of \<^verbatim>\<open>BondContractLogic.ts\<close>, and its extension by
  \<^verbatim>\<open>maxSupply\<close> and \<^verbatim>\<open>creatorAllocation\<close> in \<^verbatim>\<open>BondContract\<close>. A checkpoint
  \<^verbatim>\<open>{ rangeTo, price }\<close> (\<^verbatim>\<open>{ x, y }\<close> in \<^verbatim>\<open>BondContract\<close>) is a pair.
\<close>

record CreateTokenParamsLogic =
  tokenType :: tokenType
  name :: string
  symbol :: string
  reserveToken :: reserveToken
  mintRoyalty :: number
  burnRoyalty :: number
  stepData :: "(number \<times> number) list"

record CreateTokenParams = CreateTokenParamsLogic +
  maxSupply :: number
  creatorAllocation :: number

record tokenParams =
  tp_name :: string
  tp_symbol :: string
  tp_uri :: "string option"

record bondParams =
  bp_mintRoyalty :: number
  bp_burnRoyalty :: number
  bp_reserveToken :: string
  bp_maxSupply :: int
  bp_stepRanges :: "int list"
  bp_stepPrices :: "int list"

text \<open>
  \<^verbatim>\<open>BondContractLogic.generateCreateArgs\<close>. The \<^verbatim>\<open>forEach\<close> pushes the scaled
  range and then the scaled price of each checkpoint. \<^verbatim>\<open>!stepData\<close> is false for
  every array, the empty one included, so only the three length tests remain.
\<close>

fun scale_each :: "wei_fun \<Rightarrow> nat \<Rightarrow> nat \<Rightarrow> (number \<times> number) list \<Rightarrow> err + (int list \<times> int list)" where
  "scale_each wei unit rdec [] = Inr ([], [])"
| "scale_each wei unit rdec ((rangeTo, price) # rest) =
     bindE (wei rangeTo unit) (\<lambda>r.
     bindE (wei price rdec) (\<lambda>p.
     bindE (scale_each wei unit rdec rest) (\<lambda>(rs, ps). Inr (r # rs, p # ps))))"

definition BondContractLogic_generateCreateArgs ::
  "wei_fun \<Rightarrow> 'z CreateTokenParamsLogic_scheme \<Rightarrow> err + (tokenParams \<times> bondParams)" where
  "BondContractLogic_generateCreateArgs wei params =
     bindE (scale_each wei (if tokenType params = ERC20 then 18 else 0)
              (decimals (reserveToken params)) (stepData params)) (\<lambda>(ranges0, prices0).
     case merge_same_price ranges0 prices0 of (stepRanges, stepPrices) \<Rightarrow>
       if length stepRanges = 0 \<or> length stepPrices = 0
          \<or> length stepRanges \<noteq> length stepPrices
       then Inl InvalidCurve
       else Inr (\<lparr>tp_name = name params, tp_symbol = symbol params, tp_uri = None\<rparr>,
                 \<lparr>bp_mintRoyalty = mintRoyalty params * 100,
                  bp_burnRoyalty = burnRoyalty params * 100,
                  bp_reserveToken = address (reserveToken params),
                  bp_maxSupply = last stepRanges,
                  bp_stepRanges = stepRanges,
                  bp_stepPrices = stepPrices\<rparr>))"

text \<open>
  \<^verbatim>\<open>BondContract.generateCreateArgs\<close>. \<^verbatim>\<open>restructureStepData\<close> (imported from
  \<^verbatim>\<open>../utils\<close>) is not among the sources and is a parameter. The range array is
  mapped first, then the price array; a positive creator allocation
  (\<^verbatim>\<open>creatorAllocation && creatorAllocation > 0\<close>, which is \<open>0 < creatorAllocation\<close>)
  is put in front of both (\<^verbatim>\<open>unshift\<close>) before the merge.
\<close>

definition BondContract_generateCreateArgs ::
  "wei_fun \<Rightarrow> ((number \<times> number) list \<Rightarrow> (number \<times> number) list) \<Rightarrow> CreateTokenParams
     \<Rightarrow> err + (tokenParams \<times> bondParams)" where
  "BondContract_generateCreateArgs wei restructureStepData params =
     (let unit = (if tokenType params = ERC20 then 18 else 0);
          clonedStepData = restructureStepData (stepData params)
      in
      bindE (mapE (\<lambda>(x, y). wei x unit) clonedStepData) (\<lambda>ranges0.
      bindE (mapE (\<lambda>(x, y). wei y (decimals (reserveToken params))) clonedStepData) (\<lambda>prices0.
      bindE (if 0 < creatorAllocation params
             then bindE (wei (creatorAllocation params) unit)
                    (\<lambda>a. Inr (a # ranges0, 0 # prices0))
             else Inr (ranges0, prices0)) (\<lambda>(ranges1, prices1).
      case merge_same_price ranges1 prices1 of (stepRanges, stepPrices) \<Rightarrow>
        if length stepRanges = 0 \<or> length stepPrices = 0
           \<or> length stepRanges \<noteq> length stepPrices
        then Inl InvalidCurve
        else bindE (wei (maxSupply params) unit) (\<lambda>supply.
          Inr (\<lparr>tp_name = name params, tp_symbol = toUpperCase (symbol params), tp_uri = None\<rparr>,
               \<lparr>bp_mintRoyalty = mintRoyalty params * 100,
                bp_burnRoyalty = burnRoyalty params * 100,
                bp_reserveToken = address (reserveToken params),
                bp_maxSupply = supply,
                bp_stepRanges = stepRanges,
                bp_stepPrices = stepPrices\<rparr>))))))"

text \<open>
  Modelled from the spec: \<^verbatim>\<open>restructureStepData\<close> is missing from the sources; the
  specification (4.3, step 1) scales the caller's checkpoints as they are, so the
  instance used in concrete evaluations returns a copy of its argument.
\<close>

definition restructure_copy :: "(number \<times> number) list \<Rightarrow> (number \<times> number) list" where
  "restructure_copy checkpoints = checkpoints"

section \<open>Chain registry\<close>

text \<open>
  The chain identifiers come from \<^verbatim>\<open>viem/chains\<close>, which is not part of the sources;
  the constants below are the identifiers of those networks.
\<close>

definition mainnet_id :: nat where "mainnet_id = 1"
definition base_id :: nat where "base_id = 8453"
definition optimism_id :: nat where "optimism_id = 10"
definition arbitrum_id :: nat where "arbitrum_id = 42161"
definition avalanche_id :: nat where "avalanche_id = 43114"
definition polygon_id :: nat where "polygon_id = 137"
definition bsc_id :: nat where "bsc_id = 56"
definition sepolia_id :: nat where "sepolia_id = 11155111"

text \<open>
  An entry of \<^verbatim>\<open>CHAINS\<close>. The fields \<^verbatim>\<open>icon\<close>, \<^verbatim>\<open>color\<close>, \<^verbatim>\<open>openseaSlug\<close>
  and \<^verbatim>\<open>enabled\<close> are read by none of the functions below and are left out.
\<close>

record ChainType =
  ch_id :: nat
  ch_name :: string
  ch_isTestnet :: "bool option"

definition CHAINS :: "ChainType list" where
  "CHAINS =
     [\<lparr>ch_id = mainnet_id, ch_name = ''Ethereum'', ch_isTestnet = None\<rparr>,
      \<lparr>ch_id = base_id, ch_name = ''Base'', ch_isTestnet = None\<rparr>,
      \<lparr>ch_id = optimism_id, ch_name = ''Optimism'', ch_isTestnet = None\<rparr>,
      \<lparr>ch_id = arbitrum_id, ch_name = ''Arbitrum'', ch_isTestnet = None\<rparr>,
      \<lparr>ch_id = avalanche_id, ch_name = ''Avalanche'', ch_isTestnet = None\<rparr>,
      \<lparr>ch_id = polygon_id, ch_name = ''Polygon'', ch_isTestnet = None\<rparr>,
      \<lparr>ch_id = bsc_id, ch_name = ''BNBChain'', ch_isTestnet = None\<rparr>,
      \<lparr>ch_id = sepolia_id, ch_name = ''Sepolia'', ch_isTestnet = Some True\<rparr>]"

text \<open>\<^verbatim>\<open>chainStringToId(name)\<close>: \<^verbatim>\<open>undefined\<close> is \<open>None\<close>.\<close>

definition chainStringToId :: "string \<Rightarrow> nat option" where
  "chainStringToId chainName =
     (if chainName = [] then None
      else (case find (\<lambda>chain. toLowerCase (ch_name chain) = toLowerCase chainName) CHAINS of
              None \<Rightarrow> None
            | Some found \<Rightarrow> Some (ch_id found)))"

text \<open>\<^verbatim>\<open>CHAIN_MAP\<close>: the \<^verbatim>\<open>reduce\<close> over \<^verbatim>\<open>CHAINS\<close>, a later entry overwriting.\<close>

definition CHAIN_MAP :: "nat \<Rightarrow> ChainType option" where
  "CHAIN_MAP = foldl (\<lambda>prev curr. prev(ch_id curr \<mapsto> curr)) Map.empty CHAINS"

section \<open>The generic contract client\<close>

text \<open>
  A viem chain object (only its \<^verbatim>\<open>id\<close> is read), a wallet client and a public
  client. \<^verbatim>\<open>custom(window.ethereum)\<close> is \<open>Custom\<close> of the provider handle,
  \<^verbatim>\<open>custom(this.walletClient.transport)\<close> is \<open>CustomOver\<close> the earlier transport.
  The transport of a public client (\<^verbatim>\<open>fallback(chainRPCFallbacks(chain.id), { rank: true })\<close>)
  is fixed by its chain; \<^verbatim>\<open>chainRPCFallbacks\<close> is not among the sources.
\<close>

record viem_chain =
  vc_id :: nat

datatype transport = Http | Custom nat | CustomOver transport

record wallet_client =
  wc_account :: "string option"
  wc_chain :: "viem_chain option"
  wc_transport :: transport

definition createWalletClient :: "string option \<Rightarrow> viem_chain \<Rightarrow> transport \<Rightarrow> wallet_client" where
  "createWalletClient account chain transport =
     \<lparr>wc_account = account, wc_chain = Some chain, wc_transport = transport\<rparr>"

record public_client =
  pc_chain :: viem_chain
  pc_options :: "string option"

definition createPublicClient :: "viem_chain \<Rightarrow> string option \<Rightarrow> public_client" where
  "createPublicClient chain options = \<lparr>pc_chain = chain, pc_options = options\<rparr>"

text \<open>The fields of a \<^verbatim>\<open>GenericContractLogic\<close> object (\<^verbatim>\<open>chain\<close> is \<open>chainObj\<close>).\<close>

record GenericContractLogic =
  abi :: string
  contractType :: string
  chainObj :: viem_chain
  chainId :: nat
  publicClient :: public_client
  walletClient :: "wallet_client option"

record GenericLogicConstructorParams =
  p_chainId :: nat
  p_type :: string
  p_abi :: string
  p_options :: "string option"

text \<open>
  The constructor. \<^verbatim>\<open>Object.values(chains)\<close>, the chain objects of viem, is the
  parameter \<open>viem_chains\<close>. \<^verbatim>\<open>BondContract\<close>'s constructor only calls this one.
\<close>

definition new_GenericContractLogic ::
  "viem_chain list \<Rightarrow> GenericLogicConstructorParams \<Rightarrow> err + GenericContractLogic" where
  "new_GenericContractLogic viem_chains params =
     (case CHAIN_MAP (p_chainId params) of
        None \<Rightarrow> Inl UnsupportedChain
      | Some supported \<Rightarrow>
          (case find (\<lambda>chain. vc_id chain = p_chainId params) viem_chains of
             None \<Rightarrow> Inl ChainNotFound
           | Some chain \<Rightarrow>
               Inr \<lparr>abi = p_abi params, contractType = p_type params, chainObj = chain,
                    chainId = p_chainId params,
                    publicClient = createPublicClient chain (p_options params),
                    walletClient = None\<rparr>))"

text \<open>
  \<^verbatim>\<open>BondContract.network\<close>. The argument is a chain name or a number; at run time
  the number can be any JavaScript number, \<^verbatim>\<open>NaN\<close> and the infinities included
  (the parameter type \<^verbatim>\<open>ContractChainType\<close> is not among the sources and is not
  tested by the method). \<^verbatim>\<open>!chainId\<close> holds for \<^verbatim>\<open>undefined\<close>, for \<open>0\<close> and for
  \<^verbatim>\<open>NaN\<close>. The method returns \<^verbatim>\<open>this\<close>.
\<close>

datatype js_number = Num number | NaN | PosInfinity | NegInfinity

datatype chain_arg = ChainName string | ChainNumber js_number

definition network :: "GenericContractLogic \<Rightarrow> chain_arg \<Rightarrow> err + GenericContractLogic" where
  "network this ident =
     (let chainId = (case ident of
                       ChainName s \<Rightarrow> map_option (\<lambda>n. Num (of_nat n)) (chainStringToId s)
                     | ChainNumber v \<Rightarrow> Some v)
      in if chainId = None \<or> chainId = Some (Num 0) \<or> chainId = Some NaN
         then Inl UnsupportedChain else Inr this)"

subsection \<open>The per-chain cache\<close>

text \<open>
  Objects have identity: the store holds the objects created so far, an object's
  reference being its index, and the static table \<^verbatim>\<open>instances\<close> from chain id to
  reference. \<^verbatim>\<open>new this(...)\<close> appends the new object. The table is a property of
  \<^verbatim>\<open>GenericContractLogic\<close>, found through the prototype chain by every subclass.
\<close>

record store =
  objects :: "GenericContractLogic list"
  instances :: "nat \<Rightarrow> nat option"

definition empty_store :: store where
  "empty_store = \<lparr>objects = [], instances = Map.empty\<rparr>"

definition getInstance ::
  "viem_chain list \<Rightarrow> nat \<Rightarrow> string \<Rightarrow> string \<Rightarrow> store \<Rightarrow> (err + nat) \<times> store" where
  "getInstance viem_chains cid type abi' st =
     (case instances st cid of
        Some ref \<Rightarrow> (Inr ref, st)
      | None \<Rightarrow>
          (case new_GenericContractLogic viem_chains
                  \<lparr>p_chainId = cid, p_type = type, p_abi = abi', p_options = None\<rparr> of
             Inl e \<Rightarrow> (Inl e, st)
           | Inr obj \<Rightarrow>
               (Inr (length (objects st)),
                st\<lparr>objects := objects st @ [obj],
                   instances := (instances st)(cid \<mapsto> length (objects st))\<rparr>)))"

text \<open>
  The constructor is public (\<^verbatim>\<open>new GenericContractLogic(params)\<close>,
  \<^verbatim>\<open>new BondContract(params)\<close>): a direct call creates an object and leaves the table
  \<^verbatim>\<open>instances\<close> as it is.
\<close>

definition construct_obj ::
  "viem_chain list \<Rightarrow> GenericLogicConstructorParams \<Rightarrow> store \<Rightarrow> (err + nat) \<times> store" where
  "construct_obj viem_chains params st =
     (case new_GenericContractLogic viem_chains params of
        Inl e \<Rightarrow> (Inl e, st)
      | Inr obj \<Rightarrow> (Inr (length (objects st)), st\<lparr>objects := objects st @ [obj]\<rparr>))"

text \<open>
  What a program can do to the store through the class: call \<^verbatim>\<open>getInstance\<close> or call
  the constructor. (Assignments to the public table \<^verbatim>\<open>instances\<close> from outside the
  class are not among these.) \<open>after_ops\<close> is the store after a sequence of such calls.
\<close>

datatype store_op =
    GetInstance nat string string
  | Construct GenericLogicConstructorParams

fun run_op :: "viem_chain list \<Rightarrow> store \<Rightarrow> store_op \<Rightarrow> store" where
  "run_op viem_chains st (GetInstance cid type abi') = snd (getInstance viem_chains cid type abi' st)"
| "run_op viem_chains st (Construct params) = snd (construct_obj viem_chains params st)"

definition run_ops :: "viem_chain list \<Rightarrow> store_op list \<Rightarrow> store \<Rightarrow> store" where
  "run_ops viem_chains ops st = foldl (run_op viem_chains) st ops"

definition after_ops :: "viem_chain list \<Rightarrow> store_op list \<Rightarrow> store" where
  "after_ops viem_chains ops = run_ops viem_chains ops empty_store"

subsection \<open>The write pipeline\<close>

text \<open>
  A thrown value is falsy (\<^verbatim>\<open>undefined\<close>, \<^verbatim>\<open>null\<close>, ...), a truthy primitive
  (on which \<^verbatim>\<open>Object.assign\<close> leaves no property), or an error object, which may
  carry the properties that \<^verbatim>\<open>Object.assign\<close> puts on it in the \<^verbatim>\<open>catch\<close> block
  of \<^verbatim>\<open>write\<close>. \<open>'a\<close> is the type of the call's argument tuple.
\<close>

datatype receipt = Receipt string nat

record 'a simulation_args =
  sa_account :: "string option"
  sa_chain :: viem_chain
  sa_abi :: string
  sa_address :: "string option"
  sa_functionName :: string
  sa_args :: 'a
  sa_value :: "int option"

record 'a annotation =
  an_functionName :: string
  an_args :: 'a
  an_simulationArgs :: "'a simulation_args"
  an_value :: "int option"
  an_account :: "string option"
  an_walletClient :: "wallet_client option"

datatype 'a thrown = Falsy | Primitive string | Error err "'a annotation option"

datatype 'a outcome = Resolved "receipt option" | Rejected "'a thrown"

text \<open>
  What a write call does to the outside, in order: the calls to the wallet and to the
  public client, and the invocations of the caller's callbacks.
\<close>

datatype 'a event =
    RequestAddresses
  | SwitchChain nat
  | AddChain nat
  | GetAddresses
  | ReadContract string
  | SimulateContract "'a simulation_args"
  | OnRequestSignature
  | WriteContract "'a simulation_args"
  | OnSigned string
  | WaitForTransactionReceipt string
  | OnSuccess receipt
  | OnError "'a thrown"

text \<open>
  The collaborators: \<^verbatim>\<open>window.ethereum\<close>, the address table
  \<^verbatim>\<open>CONTRACT_ADDRESSES\<close>, and the answers of the wallet client and of the public
  client (\<open>Inl\<close>, or \<open>Some\<close> for a call without result, is a rejection). The
  \<^verbatim>\<open>request\<close> returned by \<^verbatim>\<open>simulateContract\<close> is a prepared copy of the call
  parameters.
\<close>

record 'a env =
  ethereum :: "nat option"
  CONTRACT_ADDRESSES :: "string \<Rightarrow> nat \<Rightarrow> string option"
  requestAddresses :: "wallet_client \<Rightarrow> 'a thrown + string list"
  getAddresses :: "wallet_client \<Rightarrow> 'a thrown + string list"
  switchChain :: "wallet_client \<Rightarrow> nat \<Rightarrow> 'a thrown option"
  addChain :: "wallet_client \<Rightarrow> viem_chain \<Rightarrow> 'a thrown option"
  readContract :: "string \<Rightarrow> string option \<Rightarrow> string \<Rightarrow> 'a thrown + int"
  simulateContract :: "'a simulation_args \<Rightarrow> 'a thrown + 'a simulation_args"
  writeContract :: "wallet_client \<Rightarrow> 'a simulation_args \<Rightarrow> 'a thrown + string"
  waitForTransactionReceipt :: "string \<Rightarrow> 'a thrown + receipt"

text \<open>
  \<^verbatim>\<open>GenericWriteParams\<close>. A callback is optional; called, it returns (\<open>None\<close>) or
  throws.
\<close>

record 'a GenericWriteParams =
  functionName :: string
  args :: 'a
  "value" :: "int option"
  onRequestSignature :: "(unit \<Rightarrow> 'a thrown option) option"
  onSigned :: "(string \<Rightarrow> 'a thrown option) option"
  onSuccess :: "(receipt \<Rightarrow> 'a thrown option) option"
  onError :: "('a thrown \<Rightarrow> 'a thrown option) option"

text \<open>\<^verbatim>\<open>const [address] = ...\<close>: the first element, \<^verbatim>\<open>undefined\<close> on an empty list.\<close>

definition first :: "'b list \<Rightarrow> 'b option" where
  "first xs = (case xs of [] \<Rightarrow> None | x # _ \<Rightarrow> Some x)"

text \<open>Sequencing of steps that may throw, with the events of both in order.\<close>

definition then_step ::
  "('e + 'x) \<times> 'v list \<Rightarrow> ('x \<Rightarrow> ('e + 'y) \<times> 'v list) \<Rightarrow> ('e + 'y) \<times> 'v list" where
  "then_step m f =
     (case m of
        (Inl e, tr) \<Rightarrow> (Inl e, tr)
      | (Inr x, tr) \<Rightarrow> (case f x of (r, tr') \<Rightarrow> (r, tr @ tr')))"

text \<open>\<^verbatim>\<open>cb?.(arg)\<close>: nothing happens without a callback.\<close>

definition notify ::
  "('b \<Rightarrow> 'a thrown option) option \<Rightarrow> 'b \<Rightarrow> 'a event \<Rightarrow> ('a thrown + unit) \<times> 'a event list" where
  "notify cb arg ev =
     (case cb of
        None \<Rightarrow> (Inr (), [])
      | Some f \<Rightarrow> (case f arg of None \<Rightarrow> (Inr (), [ev]) | Some e \<Rightarrow> (Inl e, [ev])))"

text \<open>
  \<^verbatim>\<open>initializeWallet\<close>: the result (\<open>Some\<close> is the exception), the object with its
  \<^verbatim>\<open>walletClient\<close> field as the method leaves it, and the events.
\<close>

definition initializeWallet ::
  "'a env \<Rightarrow> GenericContractLogic \<Rightarrow> 'a thrown option \<times> GenericContractLogic \<times> 'a event list" where
  "initializeWallet env this =
     (case walletClient this of
        Some wc \<Rightarrow>
          (case requestAddresses env wc of
             Inl e \<Rightarrow> (Some e, this, [RequestAddresses])
           | Inr addrs \<Rightarrow>
               (None,
                this\<lparr>walletClient :=
                  Some (createWalletClient (first addrs) (chainObj this)
                          (CustomOver (wc_transport wc)))\<rparr>,
                [RequestAddresses]))
      | None \<Rightarrow>
          (case ethereum env of
             None \<Rightarrow> (Some (Error NoProviderFound None), this, [])
           | Some eth \<Rightarrow>
               (let wc0 = createWalletClient None (chainObj this) (Custom eth);
                    this0 = this\<lparr>walletClient := Some wc0\<rparr>
                in case requestAddresses env wc0 of
                     Inl e \<Rightarrow> (Some e, this0, [RequestAddresses])
                   | Inr addrs \<Rightarrow>
                       (None,
                        this0\<lparr>walletClient :=
                          Some (createWalletClient (first addrs) (chainObj this) (Custom eth))\<rparr>,
                        [RequestAddresses]))))"

text \<open>
  The chain alignment of \<^verbatim>\<open>write\<close>: \<^verbatim>\<open>switchChain\<close>, and \<^verbatim>\<open>addChain\<close> in its
  \<^verbatim>\<open>catch\<close> handler.
\<close>

definition alignChain ::
  "'a env \<Rightarrow> GenericContractLogic \<Rightarrow> wallet_client \<Rightarrow> ('a thrown + unit) \<times> 'a event list" where
  "alignChain env this wc =
     (if map_option vc_id (wc_chain wc) \<noteq> Some (vc_id (chainObj this)) then
        (case switchChain env wc (vc_id (chainObj this)) of
           None \<Rightarrow> (Inr (), [SwitchChain (vc_id (chainObj this))])
         | Some _ \<Rightarrow>
             (case addChain env wc (chainObj this) of
                None \<Rightarrow>
                  (Inr (), [SwitchChain (vc_id (chainObj this)), AddChain (vc_id (chainObj this))])
              | Some e \<Rightarrow>
                  (Inl e, [SwitchChain (vc_id (chainObj this)), AddChain (vc_id (chainObj this))])))
      else (Inr (), []))"

text \<open>
  The part of \<^verbatim>\<open>write\<close> before the \<^verbatim>\<open>try\<close> block: wallet initialisation, the
  account test, chain alignment and \<^verbatim>\<open>getAddresses\<close>. A success carries the wallet
  client and the \<^verbatim>\<open>account\<close> read from it.
\<close>

definition write_prelude ::
  "'a env \<Rightarrow> GenericContractLogic
     \<Rightarrow> ('a thrown + wallet_client \<times> string option) \<times> GenericContractLogic \<times> 'a event list" where
  "write_prelude env this =
     (case initializeWallet env this of
        (Some e, this', tr) \<Rightarrow> (Inl e, this', tr)
      | (None, this', tr) \<Rightarrow>
          (case walletClient this' of
             None \<Rightarrow> (Inl (Error NoWalletClient None), this', tr)
           | Some wc \<Rightarrow>
               if wc_account wc = None \<or> wc_account wc = Some []
               then (Inl (Error NoWalletClient None), this', tr)
               else
                 (case then_step (alignChain env this' wc) (\<lambda>_.
                         then_step (getAddresses env wc, [GetAddresses]) (\<lambda>addrs.
                         (Inr (wc, first addrs), []))) of
                    (r, tr') \<Rightarrow> (r, this', tr @ tr'))))"

definition simulationArgs_of ::
  "'a env \<Rightarrow> GenericContractLogic \<Rightarrow> string option \<Rightarrow> 'a GenericWriteParams \<Rightarrow> 'a simulation_args" where
  "simulationArgs_of env this account params =
     \<lparr>sa_account = account, sa_chain = chainObj this, sa_abi = abi this,
      sa_address = CONTRACT_ADDRESSES env (contractType this) (chainId this),
      sa_functionName = functionName params, sa_args = args params,
      sa_value = (case value params of None \<Rightarrow> None
                  | Some v \<Rightarrow> if v = 0 then None else Some v)\<rparr>"

text \<open>The \<^verbatim>\<open>try\<close> block of \<^verbatim>\<open>write\<close>.\<close>

definition write_try ::
  "'a env \<Rightarrow> wallet_client \<Rightarrow> 'a simulation_args \<Rightarrow> 'a GenericWriteParams
     \<Rightarrow> ('a thrown + receipt) \<times> 'a event list" where
  "write_try env wc simulationArgs params =
     then_step (simulateContract env simulationArgs, [SimulateContract simulationArgs]) (\<lambda>request.
     then_step (notify (onRequestSignature params) () OnRequestSignature) (\<lambda>_.
     then_step (writeContract env wc request, [WriteContract request]) (\<lambda>tx.
     then_step (notify (onSigned params) tx (OnSigned tx)) (\<lambda>_.
     then_step (waitForTransactionReceipt env tx, [WaitForTransactionReceipt tx]) (\<lambda>receipt.
     then_step (notify (onSuccess params) receipt (OnSuccess receipt)) (\<lambda>_.
     (Inr receipt, [])))))))"

text \<open>
  The \<^verbatim>\<open>catch\<close> block: \<^verbatim>\<open>if (e) Object.assign(e, {...})\<close>, then
  \<^verbatim>\<open>onError?.(e)\<close>; the function then ends without a \<^verbatim>\<open>return\<close>.
\<close>

definition annotate :: "'a annotation \<Rightarrow> 'a thrown \<Rightarrow> 'a thrown" where
  "annotate an e =
     (case e of Falsy \<Rightarrow> Falsy | Primitive v \<Rightarrow> Primitive v | Error k _ \<Rightarrow> Error k (Some an))"

definition write_catch ::
  "'a annotation \<Rightarrow> 'a GenericWriteParams \<Rightarrow> 'a thrown \<Rightarrow> 'a outcome \<times> 'a event list" where
  "write_catch an params e =
     (case notify (onError params) (annotate an e) (OnError (annotate an e)) of
        (Inl e', tr) \<Rightarrow> (Rejected e', tr)
      | (Inr _, tr) \<Rightarrow> (Resolved None, tr))"

text \<open>\<^verbatim>\<open>write\<close> (\<open>write_op\<close>): the outcome of the promise, the object and the events.\<close>

definition write_op ::
  "'a env \<Rightarrow> GenericContractLogic \<Rightarrow> 'a GenericWriteParams
     \<Rightarrow> 'a outcome \<times> GenericContractLogic \<times> 'a event list" where
  "write_op env this params =
     (case write_prelude env this of
        (Inl e, this', tr) \<Rightarrow> (Rejected e, this', tr)
      | (Inr (wc, account), this', tr) \<Rightarrow>
          (let simulationArgs = simulationArgs_of env this' account params in
           case write_try env wc simulationArgs params of
             (Inr receipt, tr') \<Rightarrow> (Resolved (Some receipt), this', tr @ tr')
           | (Inl e, tr') \<Rightarrow>
               (case write_catch
                       \<lparr>an_functionName = functionName params, an_args = args params,
                        an_simulationArgs = simulationArgs, an_value = value params,
                        an_account = account, an_walletClient = walletClient this'\<rparr>
                       params e of
                  (out, tr'') \<Rightarrow> (out, this', tr @ tr' @ tr''))))"

text \<open>\<^verbatim>\<open>read\<close> (\<open>read_op\<close>), for a function returning an integer.\<close>

definition read_op ::
  "'a env \<Rightarrow> GenericContractLogic \<Rightarrow> string \<Rightarrow> ('a thrown + int) \<times> 'a event list" where
  "read_op env this fn =
     (readContract env (abi this) (CONTRACT_ADDRESSES env (contractType this) (chainId this)) fn,
      [ReadContract fn])"

section \<open>Token creation\<close>

text \<open>
  The lifecycle callbacks that the parameter type of both \<^verbatim>\<open>createToken\<close> methods
  admits (\<^verbatim>\<open>Pick<GenericWriteParams, 'onError' | 'onRequestSignature' | 'onSigned' |
  'onSuccess'>\<close>).
\<close>

record 'a callbacks =
  cb_onRequestSignature :: "(unit \<Rightarrow> 'a thrown option) option"
  cb_onSigned :: "(string \<Rightarrow> 'a thrown option) option"
  cb_onSuccess :: "(receipt \<Rightarrow> 'a thrown option) option"
  cb_onError :: "('a thrown \<Rightarrow> 'a thrown option) option"

type_synonym create_args = "tokenParams \<times> bondParams"

text \<open>
  The steps shared by the two methods: an exception of the builder rejects the call,
  then \<^verbatim>\<open>read({ functionName: 'creationFee', args: [] })\<close>, then \<^verbatim>\<open>write\<close> with
  the parameters each method passes.
\<close>

definition create_with ::
  "create_args env \<Rightarrow> GenericContractLogic \<Rightarrow> err + create_args
     \<Rightarrow> (create_args \<Rightarrow> int \<Rightarrow> create_args GenericWriteParams)
     \<Rightarrow> create_args outcome \<times> GenericContractLogic \<times> create_args event list" where
  "create_with env this built write_params =
     (case built of
        Inl e \<Rightarrow> (Rejected (Error e None), this, [])
      | Inr args' \<Rightarrow>
          (case read_op env this ''creationFee'' of
             (Inl e, tr) \<Rightarrow> (Rejected e, this, tr)
           | (Inr fee, tr) \<Rightarrow>
               (case write_op env this (write_params args' fee) of
                  (out, this', tr') \<Rightarrow> (out, this', tr @ tr'))))"

text \<open>\<^verbatim>\<open>BondContractLogic.createToken\<close> passes the four callbacks on.\<close>

definition BondContractLogic_createToken ::
  "wei_fun \<Rightarrow> create_args env \<Rightarrow> GenericContractLogic \<Rightarrow> 'z CreateTokenParamsLogic_scheme
     \<Rightarrow> create_args callbacks
     \<Rightarrow> create_args outcome \<times> GenericContractLogic \<times> create_args event list" where
  "BondContractLogic_createToken wei env this params cbs =
     create_with env this
       (BondContractLogic_generateCreateArgs wei (params\<lparr>tokenType := ERC20\<rparr>))
       (\<lambda>args' fee.
          \<lparr>functionName = ''createToken'', args = args', value = Some fee,
           onRequestSignature = cb_onRequestSignature cbs, onSigned = cb_onSigned cbs,
           onSuccess = cb_onSuccess cbs, onError = cb_onError cbs\<rparr>)"

text \<open>
  \<^verbatim>\<open>BondContract.createToken\<close> calls
  \<^verbatim>\<open>this.write({ functionName: 'createToken', args: [...], value: fee })\<close>: the
  callbacks of its parameter are not among the properties it passes.
\<close>

definition BondContract_createToken ::
  "wei_fun \<Rightarrow> ((number \<times> number) list \<Rightarrow> (number \<times> number) list) \<Rightarrow> create_args env
     \<Rightarrow> GenericContractLogic \<Rightarrow> CreateTokenParams \<Rightarrow> create_args callbacks
     \<Rightarrow> create_args outcome \<times> GenericContractLogic \<times> create_args event list" where
  "BondContract_createToken wei restructureStepData env this params cbs =
     create_with env this
       (BondContract_generateCreateArgs wei restructureStepData params)
       (\<lambda>args' fee.
          \<lparr>functionName = ''createToken'', args = args', value = Some fee,
           onRequestSignature = None, onSigned = None, onSuccess = None, onError = None\<rparr>)"

section \<open>Notions used in the statements\<close>

text \<open>
  Which events of a trace are invocations of the caller's callbacks, which are
  simulations, and the event list of an optional callback that was invoked.
\<close>

fun is_callback :: "'a event \<Rightarrow> bool" where
  "is_callback OnRequestSignature = True"
| "is_callback (OnSigned tx) = True"
| "is_callback (OnSuccess r) = True"
| "is_callback (OnError e) = True"
| "is_callback ev = False"

fun is_simulate :: "'a event \<Rightarrow> bool" where
  "is_simulate (SimulateContract sa) = True"
| "is_simulate ev = False"

definition fired :: "'b option \<Rightarrow> 'v \<Rightarrow> 'v list" where
  "fired cb ev = (case cb of None \<Rightarrow> [] | Some f \<Rightarrow> [ev])"

fun callback_name :: "'a event \<Rightarrow> string option" where
  "callback_name OnRequestSignature = Some ''onRequestSignature''"
| "callback_name (OnSigned tx) = Some ''onSigned''"
| "callback_name (OnSuccess r) = Some ''onSuccess''"
| "callback_name (OnError e) = Some ''onError''"
| "callback_name ev = None"

definition callbacks_invoked :: "'a event list \<Rightarrow> string list" where
  "callbacks_invoked tr = List.map_filter callback_name tr"

text \<open>
  The cache is sound: a cached reference is an object of the store, of the chain id it
  is cached for.
\<close>

definition cache_sound :: "store \<Rightarrow> bool" where
  "cache_sound st \<longleftrightarrow>
     (\<forall>c r. instances st c = Some r \<longrightarrow> r < length (objects st) \<and> chainId (objects st ! r) = c)"

section \<open>Concrete inputs\<close>

text \<open>Inputs at which statements are evaluated.\<close>

definition params_allocation_only :: CreateTokenParams where
  "params_allocation_only =
     \<lparr>tokenType = ERC20, name = ''Token'', symbol = ''tkn'',
      reserveToken = \<lparr>address = ''0xreserve'', decimals = 6\<rparr>,
      mintRoyalty = 1, burnRoyalty = 1, stepData = [],
      maxSupply = 1000, creatorAllocation = 50\<rparr>"

definition params_free_first_step :: CreateTokenParams where
  "params_free_first_step =
     \<lparr>tokenType = ERC20, name = ''Token'', symbol = ''tkn'',
      reserveToken = \<lparr>address = ''0xreserve'', decimals = 6\<rparr>,
      mintRoyalty = 1, burnRoyalty = 1, stepData = [(100, 0), (200, 5)],
      maxSupply = 200, creatorAllocation = 50\<rparr>"

definition params_scenario_C :: CreateTokenParams where
  "params_scenario_C =
     \<lparr>tokenType = ERC20, name = ''Token'', symbol = ''tkn'',
      reserveToken = \<lparr>address = ''0xreserve'', decimals = 6\<rparr>,
      mintRoyalty = 1, burnRoyalty = 1, stepData = [(100, 5)],
      maxSupply = 100, creatorAllocation = 50\<rparr>"

definition params_no_checkpoints :: CreateTokenParams where
  "params_no_checkpoints =
     \<lparr>tokenType = ERC20, name = ''Token'', symbol = ''tkn'',
      reserveToken = \<lparr>address = ''0xreserve'', decimals = 6\<rparr>,
      mintRoyalty = 1, burnRoyalty = 1, stepData = [],
      maxSupply = 1000, creatorAllocation = 0\<rparr>"

definition logic_params_no_checkpoints :: CreateTokenParamsLogic where
  "logic_params_no_checkpoints =
     \<lparr>tokenType = ERC20, name = ''Token'', symbol = ''tkn'',
      reserveToken = \<lparr>address = ''0xreserve'', decimals = 6\<rparr>,
      mintRoyalty = 1, burnRoyalty = 1, stepData = []\<rparr>"

definition mainnet_client :: GenericContractLogic where
  "mainnet_client =
     \<lparr>abi = ''BOND_ABI'', contractType = ''BOND'', chainObj = \<lparr>vc_id = mainnet_id\<rparr>,
      chainId = mainnet_id,
      publicClient = createPublicClient \<lparr>vc_id = mainnet_id\<rparr> None,
      walletClient = None\<rparr>"

definition user_wallet :: wallet_client where
  "user_wallet = createWalletClient (Some ''0xuser'') \<lparr>vc_id = mainnet_id\<rparr> (Custom 1)"

definition mainnet_client_bound :: GenericContractLogic where
  "mainnet_client_bound = mainnet_client\<lparr>walletClient := Some user_wallet\<rparr>"

definition env_ok :: "'a env" where
  "env_ok =
     \<lparr>ethereum = Some 1,
      CONTRACT_ADDRESSES = (\<lambda>type cid. Some ''0xbond''),
      requestAddresses = (\<lambda>wc. Inr [''0xuser'']),
      getAddresses = (\<lambda>wc. Inr [''0xuser'']),
      switchChain = (\<lambda>wc cid. None),
      addChain = (\<lambda>wc c. None),
      readContract = (\<lambda>abi' addr fn. Inr 7),
      simulateContract = (\<lambda>sa. Inr sa),
      writeContract = (\<lambda>wc request. Inr ''0xtx''),
      waitForTransactionReceipt = (\<lambda>tx. Inr (Receipt tx 1))\<rparr>"

definition reverted :: "'a thrown" where
  "reverted = Error (External ''execution reverted'') None"

definition env_sim_fails :: "'a env" where
  "env_sim_fails = env_ok\<lparr>simulateContract := (\<lambda>sa. Inl reverted)\<rparr>"

definition env_no_provider :: "'a env" where
  "env_no_provider = env_ok\<lparr>ethereum := None\<rparr>"

definition approve_params :: "string list GenericWriteParams" where
  "approve_params =
     \<lparr>functionName = ''approve'', args = [''0xspender'', ''100''], value = None,
      onRequestSignature = Some (\<lambda>u. None), onSigned = Some (\<lambda>tx. None),
      onSuccess = Some (\<lambda>r. None), onError = Some (\<lambda>e. None)\<rparr>"

definition approve_simulation :: "string list simulation_args" where
  "approve_simulation =
     \<lparr>sa_account = Some ''0xuser'', sa_chain = \<lparr>vc_id = mainnet_id\<rparr>, sa_abi = ''BOND_ABI'',
      sa_address = Some ''0xbond'', sa_functionName = ''approve'',
      sa_args = [''0xspender'', ''100''], sa_value = None\<rparr>"

definition approve_context :: "string list annotation" where
  "approve_context =
     \<lparr>an_functionName = ''approve'', an_args = [''0xspender'', ''100''],
      an_simulationArgs = approve_simulation, an_value = None,
      an_account = Some ''0xuser'', an_walletClient = Some user_wallet\<rparr>"

definition tx_receipt :: receipt where
  "tx_receipt = Receipt ''0xtx'' 1"

definition viem_chains_known :: "viem_chain list" where
  "viem_chains_known =
     [\<lparr>vc_id = mainnet_id\<rparr>, \<lparr>vc_id = 5\<rparr>, \<lparr>vc_id = optimism_id\<rparr>, \<lparr>vc_id = bsc_id\<rparr>,
      \<lparr>vc_id = polygon_id\<rparr>, \<lparr>vc_id = base_id\<rparr>, \<lparr>vc_id = arbitrum_id\<rparr>,
      \<lparr>vc_id = avalanche_id\<rparr>, \<lparr>vc_id = sepolia_id\<rparr>]"

definition store_one :: store where
  "store_one = \<lparr>objects = [mainnet_client], instances = [mainnet_id \<mapsto> 0]\<rparr>"

definition mainnet_params :: GenericLogicConstructorParams where
  "mainnet_params =
     \<lparr>p_chainId = mainnet_id, p_type = ''BOND'', p_abi = ''BOND_ABI'', p_options = None\<rparr>"

definition store_two :: store where
  "store_two =
     \<lparr>objects = [mainnet_client, mainnet_client], instances = [mainnet_id \<mapsto> 0]\<rparr>"

definition all_callbacks :: "'a callbacks" where
  "all_callbacks =
     \<lparr>cb_onRequestSignature = Some (\<lambda>u. None), cb_onSigned = Some (\<lambda>tx. None),
      cb_onSuccess = Some (\<lambda>r. None), cb_onError = Some (\<lambda>e. None)\<rparr>"

section \<open>Properties of the merge step\<close>

declare merge_from.simps [simp del]

lemma no_adjacent_equal_nth:
  "no_adjacent_equal ps \<Longrightarrow> Suc i < length ps \<Longrightarrow> ps ! i \<noteq> ps ! Suc i"
proof (induction ps arbitrary: i rule: no_adjacent_equal.induct)
  case (3 p q ps)
  then show ?case by (cases i) auto
qed simp_all

lemma merge_from_unchanged:
  "no_adjacent_equal ps \<Longrightarrow> merge_from i rs ps = (rs, ps)"
proof (induction "length ps - i" arbitrary: i)
  case 0
  then show ?case by (simp add: merge_from.simps)
next
  case (Suc n)
  from Suc.hyps(2) have lt: "i < length ps" and n: "n = length ps - Suc i" by arith+
  have "merge_from i rs ps = merge_from (Suc i) rs ps"
    using lt no_adjacent_equal_nth [OF Suc.prems, of i]
    by (subst merge_from.simps) auto
  also have "\<dots> = (rs, ps)" using Suc.hyps(1) [OF n Suc.prems] .
  finally show ?case .
qed

text \<open>
  C8. The merge step is idempotent: on a pair of range/price arrays in which no two
  adjacent prices are equal, running the merge loop leaves both arrays as they are.
\<close>

theorem merge_same_price_idempotent:
  "no_adjacent_equal stepPrices \<Longrightarrow>
     merge_same_price stepRanges stepPrices = (stepRanges, stepPrices)"
  unfolding merge_same_price_def by (rule merge_from_unchanged)

theorem merge_same_price_idempotent_witness:
  "no_adjacent_equal [1000000, 2000000] \<and>
   merge_same_price [200, 300] [1000000, 2000000] = ([200, 300], [1000000, 2000000])"
  using merge_same_price_idempotent [of "[1000000, 2000000]" "[200, 300]"] by simp

text \<open>The loop from index \<open>i\<close> keeps the first \<open>i\<close> steps and scans the rest.\<close>

lemma splice1_take: "take i (splice1 i xs) = take i xs"
  by (simp add: splice1_def min_def)

lemma splice1_drop: "drop i (splice1 i xs) = drop (Suc i) xs"
  by (cases "i \<le> length xs") (simp_all add: splice1_def min_def)

lemma length_splice1: "i < length xs \<Longrightarrow> length (splice1 i xs) = length xs - 1"
  by (simp add: splice1_def)

lemma merge_from_keep_last:
  "length rs = length ps \<Longrightarrow>
   merge_from i rs ps =
     (take i rs @ map fst (keep_last (zip (drop i rs) (drop i ps))),
      take i ps @ map snd (keep_last (zip (drop i rs) (drop i ps))))"
proof (induction i rs ps rule: merge_from.induct)
  case (1 i rs ps)
  show ?case
  proof (cases "i < length ps")
    case False
    then show ?thesis using "1.prems" by (simp add: merge_from.simps)
  next
    case lt: True
    have di: "drop i rs = rs ! i # drop (Suc i) rs" "drop i ps = ps ! i # drop (Suc i) ps"
      using lt "1.prems" by (simp_all add: Cons_nth_drop_Suc)
    show ?thesis
    proof (cases "Suc i < length ps \<and> ps ! i = ps ! Suc i")
      case True
      from True have lt2: "Suc i < length ps" and eq: "ps ! i = ps ! Suc i" by simp_all
      have d1: "drop (Suc i) rs = rs ! Suc i # drop (Suc (Suc i)) rs"
               "drop (Suc i) ps = ps ! Suc i # drop (Suc (Suc i)) ps"
        using lt2 "1.prems" by (simp_all add: Cons_nth_drop_Suc)
      have len: "length (splice1 i rs) = length (splice1 i ps)"
        using lt "1.prems" by (simp add: length_splice1)
      have "merge_from i rs ps = merge_from i (splice1 i rs) (splice1 i ps)"
        using lt True by (subst merge_from.simps) simp
      also note "1.IH"(1) [OF lt True len]
      finally show ?thesis
        unfolding di using eq by (simp add: splice1_take splice1_drop d1)
    next
      case False
      have ti: "take (Suc i) rs = take i rs @ [rs ! i]" "take (Suc i) ps = take i ps @ [ps ! i]"
        using lt "1.prems" by (simp_all add: take_Suc_conv_app_nth)
      have "merge_from i rs ps = merge_from (Suc i) rs ps"
        using lt False by (subst merge_from.simps) auto
      also note "1.IH"(2) [OF lt False "1.prems"]
      finally have eq: "merge_from i rs ps =
          (take (Suc i) rs @ map fst (keep_last (zip (drop (Suc i) rs) (drop (Suc i) ps))),
           take (Suc i) ps @ map snd (keep_last (zip (drop (Suc i) rs) (drop (Suc i) ps))))" .
      show ?thesis
      proof (cases "Suc i < length ps")
        case True
        then have ne: "ps ! i \<noteq> ps ! Suc i" using False by simp
        have d1: "drop (Suc i) rs = rs ! Suc i # drop (Suc (Suc i)) rs"
                 "drop (Suc i) ps = ps ! Suc i # drop (Suc (Suc i)) ps"
          using True "1.prems" by (simp_all add: Cons_nth_drop_Suc)
        show ?thesis unfolding eq di ti using ne by (simp add: d1)
      next
        case False
        then have "drop (Suc i) rs = []" "drop (Suc i) ps = []" using "1.prems" by simp_all
        then show ?thesis unfolding eq di ti by simp
      qed
    qed
  qed
qed

lemma merge_same_price_keep_last:
  "length rs = length ps \<Longrightarrow>
   merge_same_price rs ps = (map fst (keep_last (zip rs ps)), map snd (keep_last (zip rs ps)))"
  unfolding merge_same_price_def by (simp add: merge_from_keep_last)

text \<open>
  \<open>price_runs\<close> is the cut into maximal runs of equal price: the runs put together
  give the sequence back, no run is empty, a run has one price, and two neighbouring
  runs have different prices.
\<close>

lemma price_runs_Nil_iff: "price_runs ss = [] \<longleftrightarrow> ss = []"
  by (cases ss) (auto split: list.splits)

lemma price_runs_concat: "concat (price_runs ss) = ss"
  by (induction ss) (auto split: list.splits)

lemma price_runs_nonempty: "r \<in> set (price_runs ss) \<Longrightarrow> r \<noteq> []"
  by (induction ss arbitrary: r) (auto split: list.splits if_splits)

lemma price_runs_same_price:
  "r \<in> set (price_runs ss) \<Longrightarrow> s \<in> set r \<Longrightarrow> snd s = snd (hd r)"
  by (induction ss arbitrary: r s) (auto split: list.splits if_splits)

lemma price_runs_hd: "price_runs (s # ss) = r # rest \<Longrightarrow> hd r = s"
  by (auto split: list.splits if_splits)

lemma price_runs_maximal:
  "no_adjacent_equal (map (\<lambda>r. snd (hd r)) (price_runs ss))"
proof (induction ss)
  case (Cons s ss)
  show ?case
  proof (cases "price_runs ss")
    case Nil
    then show ?thesis by simp
  next
    case (Cons r rest)
    with Cons.IH show ?thesis by (cases rest) auto
  qed
qed simp

lemma keep_last_runs: "keep_last ss = map last (price_runs ss)"
proof (induction ss rule: keep_last.induct)
  case (3 s t ss)
  obtain r rest where pr: "price_runs (t # ss) = r # rest"
    using price_runs_Nil_iff [of "t # ss"] by (cases "price_runs (t # ss)") auto
  have hd: "hd r = t" using price_runs_hd [OF pr] .
  have ne: "r \<noteq> []" using price_runs_nonempty [of r "t # ss"] pr by simp
  have "price_runs (s # t # ss) =
          (if snd s = snd t then (s # r) # rest else [s] # r # rest)"
    using pr hd by simp
  then show ?case using 3 pr ne by auto
qed simp_all

lemma keep_last_Cons_nonempty: "keep_last (t # ss) \<noteq> []"
  by (induction ss arbitrary: t) auto

lemma keep_last_hd_price: "snd (hd (keep_last (t # ss))) = snd t"
  by (induction ss arbitrary: t) auto

lemma keep_last_no_adjacent: "no_adjacent_equal (map snd (keep_last ss))"
proof (induction ss rule: keep_last.induct)
  case (3 s t ss)
  show ?case
  proof (cases "snd s = snd t")
    case True
    then show ?thesis using 3 by simp
  next
    case False
    then show ?thesis
      using 3 keep_last_Cons_nonempty [of t ss] keep_last_hd_price [of t ss]
      by (cases "keep_last (t # ss)") auto
  qed
qed simp_all

text \<open>
  C5. For every scaled step sequence (range and price arrays of one length), and so for
  every one that has adjacent entries of equal price, the merge step produces arrays in
  which no two adjacent prices are equal, and the surviving steps are the last steps of
  the runs of equal price: each run is replaced by its last (largest-index) boundary.
\<close>

theorem merge_same_price_runs:
  assumes "length stepRanges = length stepPrices"
    and "merge_same_price stepRanges stepPrices = (rs', ps')"
  shows "no_adjacent_equal ps' \<and> length rs' = length ps' \<and>
         zip rs' ps' = map last (price_runs (zip stepRanges stepPrices))"
proof -
  let ?k = "keep_last (zip stepRanges stepPrices)"
  from assms have r: "rs' = map fst ?k" and p: "ps' = map snd ?k"
    by (simp_all add: merge_same_price_keep_last)
  have "zip rs' ps' = ?k" unfolding r p by (simp add: zip_map_fst_snd)
  then show ?thesis
    using keep_last_no_adjacent [of "zip stepRanges stepPrices"] r p
    by (simp add: keep_last_runs)
qed

theorem merge_same_price_runs_witness:
  "length [100, 200, 300 :: int] = length [1, 1, 2 :: int] \<and>
   merge_same_price [100, 200, 300] [1, 1, 2] = ([200, 300], [1, 2]) \<and>
   no_adjacent_equal [1, 2] \<and> length [200, 300 :: int] = length [1, 2 :: int] \<and>
   zip [200, 300] [1, 2] = map last (price_runs (zip [100, 200, 300] [1, 1, 2]))"
proof -
  have m: "merge_same_price [100, 200, 300] [1, 1, 2] = ([200, 300], [1, 2])"
    by (simp add: merge_same_price_def merge_from.simps splice1_def)
  show ?thesis using merge_same_price_runs [OF _ m] m by simp
qed

section \<open>Properties of the argument builders\<close>

lemma bindE_Inr_iff: "bindE m f = Inr y \<longleftrightarrow> (\<exists>x. m = Inr x \<and> f x = Inr y)"
  by (cases m) (simp_all add: bindE_def)

lemma mapE_length: "mapE f xs = Inr ys \<Longrightarrow> length ys = length xs"
  by (induction xs arbitrary: ys) (auto simp: bindE_Inr_iff)

lemma mapE_Cons_Inr:
  "mapE f (x # xs) = Inr ys \<Longrightarrow> \<exists>y ys'. ys = y # ys' \<and> f x = Inr y \<and> mapE f xs = Inr ys'"
  by (auto simp: bindE_Inr_iff)

text \<open>
  C2 (as amended). An empty checkpoint list makes \<^verbatim>\<open>BondContractLogic\<close>'s builder
  fail with \<open>InvalidCurve\<close>, and \<^verbatim>\<open>BondContract\<close>'s builder too when the creator
  allocation is not positive (and restructuring no checkpoints gives none).
\<close>

theorem builders_reject_empty_checkpoints:
  "(stepData lp = [] \<longrightarrow> BondContractLogic_generateCreateArgs wei lp = Inl InvalidCurve) \<and>
   (stepData p = [] \<and> restructureStepData [] = [] \<and> \<not> 0 < creatorAllocation p \<longrightarrow>
      BondContract_generateCreateArgs wei restructureStepData p = Inl InvalidCurve)"
  by (simp add: BondContractLogic_generateCreateArgs_def BondContract_generateCreateArgs_def
      bindE_def merge_same_price_def merge_from.simps)

theorem builders_reject_empty_checkpoints_witness:
  "stepData logic_params_no_checkpoints = [] \<and>
   BondContractLogic_generateCreateArgs wei_decimal logic_params_no_checkpoints = Inl InvalidCurve \<and>
   stepData params_no_checkpoints = [] \<and> restructure_copy [] = [] \<and>
   \<not> 0 < creatorAllocation params_no_checkpoints \<and>
   BondContract_generateCreateArgs wei_decimal restructure_copy params_no_checkpoints
     = Inl InvalidCurve"
  using builders_reject_empty_checkpoints
    [of logic_params_no_checkpoints wei_decimal params_no_checkpoints restructure_copy]
  by (simp add: logic_params_no_checkpoints_def params_no_checkpoints_def restructure_copy_def)

text \<open>
  With a positive creator allocation \<^verbatim>\<open>BondContract\<close>'s builder does not fail on
  an empty checkpoint list: the allocation step alone is the curve.
\<close>

theorem allocation_only_counterexample:
  "stepData params_allocation_only = [] \<and> 0 < creatorAllocation params_allocation_only \<and>
   BondContract_generateCreateArgs wei_decimal restructure_copy params_allocation_only =
     Inr (\<lparr>tp_name = ''Token'', tp_symbol = ''TKN'', tp_uri = None\<rparr>,
          \<lparr>bp_mintRoyalty = 100, bp_burnRoyalty = 100, bp_reserveToken = ''0xreserve'',
           bp_maxSupply = 1000 * 10 ^ 18, bp_stepRanges = [50 * 10 ^ 18], bp_stepPrices = [0]\<rparr>)"
  by (simp add: params_allocation_only_def BondContract_generateCreateArgs_def
      restructure_copy_def wei_decimal_def bindE_def merge_same_price_def merge_from.simps
      toUpperCase_def upper_letters_def lower_letters_def)

lemma keep_last_front:
  "ss = [] \<or> snd (hd ss) \<noteq> snd s \<Longrightarrow> hd (keep_last (s # ss)) = s"
  by (cases ss) auto

text \<open>
  C6 (as amended). With a positive creator allocation, whenever \<^verbatim>\<open>BondContract\<close>'s
  builder returns step arrays, their first price is zero; the first range boundary is
  the scaled allocation if there is no checkpoint or the first checkpoint's scaled
  price is not zero.
\<close>

theorem creator_allocation_first_step:
  assumes pos: "0 < creatorAllocation p"
    and built: "BondContract_generateCreateArgs wei restructureStepData p = Inr (tp, bp)"
  shows "bp_stepRanges bp \<noteq> [] \<and> bp_stepPrices bp \<noteq> [] \<and> hd (bp_stepPrices bp) = 0 \<and>
         ((\<forall>x y rest. restructureStepData (stepData p) = (x, y) # rest \<longrightarrow>
              wei y (decimals (reserveToken p)) \<noteq> Inr 0) \<longrightarrow>
          wei (creatorAllocation p) (if tokenType p = ERC20 then 18 else 0)
            = Inr (hd (bp_stepRanges bp)))"
proof -
  let ?unit = "if tokenType p = ERC20 then 18 else (0::nat)"
  let ?cloned = "restructureStepData (stepData p)"
  note d = BondContract_generateCreateArgs_def Let_def bindE_def
  obtain ranges0 where r0: "mapE (\<lambda>(x, y). wei x ?unit) ?cloned = Inr ranges0"
    using built by (cases "mapE (\<lambda>(x, y). wei x ?unit) ?cloned") (simp_all add: d)
  obtain prices0 where
    p0: "mapE (\<lambda>(x, y). wei y (decimals (reserveToken p))) ?cloned = Inr prices0"
    using built r0
    by (cases "mapE (\<lambda>(x, y). wei y (decimals (reserveToken p))) ?cloned") (simp_all add: d)
  obtain a where a: "wei (creatorAllocation p) ?unit = Inr a"
    using built r0 p0 pos by (cases "wei (creatorAllocation p) ?unit") (simp_all add: d)
  obtain rs1 ps1 where m1: "merge_same_price (a # ranges0) (0 # prices0) = (rs1, ps1)"
    by (cases "merge_same_price (a # ranges0) (0 # prices0)")
  have "bp_stepRanges bp = rs1 \<and> bp_stepPrices bp = ps1"
    using built r0 p0 pos a m1
    by (cases "wei (maxSupply p) ?unit") (auto simp: d split: if_splits)
  then have rs: "bp_stepRanges bp = fst (merge_same_price (a # ranges0) (0 # prices0))"
    and ps: "bp_stepPrices bp = snd (merge_same_price (a # ranges0) (0 # prices0))"
    using m1 by simp_all
  have len: "length (a # ranges0) = length (0 # prices0)"
    using mapE_length [OF r0] mapE_length [OF p0] by simp
  let ?k = "keep_last ((a, 0) # zip ranges0 prices0)"
  have m: "merge_same_price (a # ranges0) (0 # prices0) = (map fst ?k, map snd ?k)"
    using merge_same_price_keep_last [OF len] by simp
  have ne: "?k \<noteq> []" by (rule keep_last_Cons_nonempty)
  have price: "snd (hd ?k) = 0" using keep_last_hd_price [of "(a, 0)"] by simp
  have front: "hd ?k = (a, 0)"
    if "\<forall>x y rest. ?cloned = (x, y) # rest \<longrightarrow> wei y (decimals (reserveToken p)) \<noteq> Inr 0"
  proof (cases ?cloned)
    case Nil
    then have "ranges0 = []" using r0 by simp
    then show ?thesis by simp
  next
    case (Cons c rest)
    obtain x y where c: "c = (x, y)" by (cases c)
    have r0': "mapE (\<lambda>(x, y). wei x ?unit) ((x, y) # rest) = Inr ranges0"
      using r0 unfolding Cons c .
    have p0': "mapE (\<lambda>(x, y). wei y (decimals (reserveToken p))) ((x, y) # rest) = Inr prices0"
      using p0 unfolding Cons c .
    from mapE_Cons_Inr [OF r0'] obtain r rs' where r: "ranges0 = r # rs'" by blast
    from mapE_Cons_Inr [OF p0'] obtain q ps' where
      q: "prices0 = q # ps'" "wei y (decimals (reserveToken p)) = Inr q" by auto
    from that Cons c q have "q \<noteq> 0" by auto
    then show ?thesis using r q by simp
  qed
  show ?thesis
    using ne price front a unfolding rs ps m
    by (simp add: hd_map)
qed

theorem creator_allocation_first_step_witness:
  "0 < creatorAllocation params_scenario_C \<and>
   BondContract_generateCreateArgs wei_decimal restructure_copy params_scenario_C =
     Inr (\<lparr>tp_name = ''Token'', tp_symbol = ''TKN'', tp_uri = None\<rparr>,
          \<lparr>bp_mintRoyalty = 100, bp_burnRoyalty = 100, bp_reserveToken = ''0xreserve'',
           bp_maxSupply = 100 * 10 ^ 18, bp_stepRanges = [50 * 10 ^ 18, 100 * 10 ^ 18],
           bp_stepPrices = [0, 5000000]\<rparr>) \<and>
   restructure_copy (stepData params_scenario_C) = [(100, 5)] \<and>
   wei_decimal 5 (decimals (reserveToken params_scenario_C)) = Inr 5000000 \<and>
   wei_decimal (creatorAllocation params_scenario_C) 18 = Inr (50 * 10 ^ 18)"
proof -
  have cp: "restructure_copy (stepData params_scenario_C) = [(100, 5)]"
    by (simp add: params_scenario_C_def restructure_copy_def)
  have w5: "wei_decimal 5 (decimals (reserveToken params_scenario_C)) = Inr 5000000"
    by (simp add: params_scenario_C_def wei_decimal_def)
  have pos: "0 < creatorAllocation params_scenario_C"
    by (simp add: params_scenario_C_def)
  have built: "BondContract_generateCreateArgs wei_decimal restructure_copy params_scenario_C =
     Inr (\<lparr>tp_name = ''Token'', tp_symbol = ''TKN'', tp_uri = None\<rparr>,
          \<lparr>bp_mintRoyalty = 100, bp_burnRoyalty = 100, bp_reserveToken = ''0xreserve'',
           bp_maxSupply = 100 * 10 ^ 18, bp_stepRanges = [50 * 10 ^ 18, 100 * 10 ^ 18],
           bp_stepPrices = [0, 5000000]\<rparr>)"
    by (simp add: params_scenario_C_def BondContract_generateCreateArgs_def
      restructure_copy_def wei_decimal_def bindE_def merge_same_price_def merge_from.simps
      toUpperCase_def upper_letters_def lower_letters_def)
  have nz: "\<forall>x y rest. restructure_copy (stepData params_scenario_C) = (x, y) # rest \<longrightarrow>
       wei_decimal y (decimals (reserveToken params_scenario_C)) \<noteq> Inr 0"
    by (simp add: params_scenario_C_def restructure_copy_def wei_decimal_def)
  show ?thesis
    using creator_allocation_first_step [OF pos built] pos built nz cp w5
    by (simp add: params_scenario_C_def)
qed

text \<open>
  When the first checkpoint is free as well, the merge step removes the allocation
  step and the first boundary is the checkpoint's.
\<close>

theorem free_first_step_counterexample:
  "0 < creatorAllocation params_free_first_step \<and>
   wei_decimal (creatorAllocation params_free_first_step) 18 = Inr (50 * 10 ^ 18) \<and>
   BondContract_generateCreateArgs wei_decimal restructure_copy params_free_first_step =
     Inr (\<lparr>tp_name = ''Token'', tp_symbol = ''TKN'', tp_uri = None\<rparr>,
          \<lparr>bp_mintRoyalty = 100, bp_burnRoyalty = 100, bp_reserveToken = ''0xreserve'',
           bp_maxSupply = 200 * 10 ^ 18, bp_stepRanges = [100 * 10 ^ 18, 200 * 10 ^ 18],
           bp_stepPrices = [0, 5000000]\<rparr>)"
  by (simp add: params_free_first_step_def BondContract_generateCreateArgs_def
      restructure_copy_def wei_decimal_def bindE_def merge_same_price_def merge_from.simps
      splice1_def toUpperCase_def upper_letters_def lower_letters_def)

section \<open>Properties of chain resolution\<close>


lemmas chain_ids = mainnet_id_def base_id_def optimism_id_def arbitrum_id_def
  avalanche_id_def polygon_id_def bsc_id_def sepolia_id_def

lemmas case_defs = toLowerCase_def toUpperCase_def upper_letters_def lower_letters_def

lemma CHAINS_names_lower:
  "map (\<lambda>c. toLowerCase (ch_name c)) CHAINS =
     [''ethereum'', ''base'', ''optimism'', ''arbitrum'', ''avalanche'', ''polygon'',
      ''bnbchain'', ''sepolia'']"
  by (simp add: CHAINS_def case_defs)

lemma toLowerCase_Nil_iff: "toLowerCase s = [] \<longleftrightarrow> s = []"
  by (simp add: toLowerCase_def)

lemma find_map_of:
  "find (\<lambda>c. f c = k) cs = (case map_of (map (\<lambda>c. (f c, c)) cs) k of None \<Rightarrow> None | Some c \<Rightarrow> Some c)"
  by (induction cs) auto

lemma chainStringToId_table:
  "chainStringToId s =
     (if s = [] then None
      else map_of [(''ethereum'', mainnet_id), (''base'', base_id), (''optimism'', optimism_id),
                   (''arbitrum'', arbitrum_id), (''avalanche'', avalanche_id),
                   (''polygon'', polygon_id), (''bnbchain'', bsc_id), (''sepolia'', sepolia_id)]
             (toLowerCase s))"
proof -
  have "find (\<lambda>chain. toLowerCase (ch_name chain) = k) CHAINS =
     (case map_of (zip (map (\<lambda>c. toLowerCase (ch_name c)) CHAINS) CHAINS) k of
        None \<Rightarrow> None | Some c \<Rightarrow> Some c)" for k
    by (simp add: find_map_of zip_map1 zip_same_conv_map comp_def)
  then show ?thesis
    unfolding chainStringToId_def CHAINS_names_lower
    by (simp add: CHAINS_def)
qed


lemma chainStringToId_case_insensitive:
  "toLowerCase a = toLowerCase b \<Longrightarrow> chainStringToId a = chainStringToId b"
  using toLowerCase_Nil_iff [of a] toLowerCase_Nil_iff [of b]
  by (simp add: chainStringToId_def)

lemma chainStringToId_Some_iff:
  "(\<exists>c. chainStringToId s = Some c) \<longleftrightarrow>
     (\<exists>chain \<in> set CHAINS. toLowerCase (ch_name chain) = toLowerCase s)"
proof (cases "s = []")
  case True
  have "[] \<notin> set (map (\<lambda>c. toLowerCase (ch_name c)) CHAINS)"
    unfolding CHAINS_names_lower by simp
  then have "\<not> (\<exists>chain \<in> set CHAINS. toLowerCase (ch_name chain) = [])"
    by (metis imageI set_map)
  then show ?thesis using True by (simp add: chainStringToId_def toLowerCase_def)
next
  case False
  let ?P = "\<lambda>chain. toLowerCase (ch_name chain) = toLowerCase s"
  have "(\<exists>c. chainStringToId s = Some c) \<longleftrightarrow> find ?P CHAINS \<noteq> None"
    using False by (cases "find ?P CHAINS") (simp_all add: chainStringToId_def)
  also have "\<dots> \<longleftrightarrow> (\<exists>chain \<in> set CHAINS. ?P chain)"
    by (auto simp: find_None_iff)
  finally show ?thesis .
qed

lemma chainStringToId_nonzero: "chainStringToId s \<noteq> Some 0"
proof
  assume a: "chainStringToId s = Some 0"
  then have "s \<noteq> []" by (auto simp: chainStringToId_def)
  with a have "(toLowerCase s, 0) \<in>
      set [(''ethereum'', mainnet_id), (''base'', base_id), (''optimism'', optimism_id),
           (''arbitrum'', arbitrum_id), (''avalanche'', avalanche_id),
           (''polygon'', polygon_id), (''bnbchain'', bsc_id), (''sepolia'', sepolia_id)]"
    unfolding chainStringToId_table by (intro map_of_SomeD) simp
  then show False by (simp add: chain_ids)
qed

lemma lower_sepolia: "toLowerCase ''sepolia'' = ''sepolia''"
  by (simp add: case_defs)

lemma lower_unknownnet: "toLowerCase ''unknownnet'' = ''unknownnet''"
  by (simp add: case_defs)

lemma chainStringToId_None_iff:
  "chainStringToId s = None \<longleftrightarrow>
     \<not> (\<exists>chain \<in> set CHAINS. toLowerCase (ch_name chain) = toLowerCase s)"
proof -
  have "chainStringToId s = None \<longleftrightarrow> \<not> (\<exists>c. chainStringToId s = Some c)"
    by auto
  then show ?thesis unfolding chainStringToId_Some_iff .
qed

lemma network_name:
  "network this (ChainName s) =
     (if chainStringToId s = None then Inl UnsupportedChain else Inr this)"
proof (cases "chainStringToId s")
  case None
  then show ?thesis by (simp add: network_def)
next
  case (Some n)
  then have "n \<noteq> 0" using chainStringToId_nonzero [of s] by auto
  then show ?thesis using Some by (simp add: network_def)
qed

lemma network_number:
  "network this (ChainNumber v) =
     (if v = Num 0 \<or> v = NaN then Inl UnsupportedChain else Inr this)"
  by (simp add: network_def)

lemma chainStringToId_sepolia: "chainStringToId ''sepolia'' = Some sepolia_id"
  unfolding chainStringToId_table lower_sepolia by simp

lemma chainStringToId_unknownnet: "chainStringToId ''unknownnet'' = None"
  unfolding chainStringToId_table lower_unknownnet by simp

text \<open>
  What \<^verbatim>\<open>network\<close> does with a chain name: the lookup is case-insensitive, the call
  fails with \<open>UnsupportedChain\<close> exactly when no entry of the registry has the name,
  \<^verbatim>\<open>sepolia\<close> resolves to Sepolia's id and \<^verbatim>\<open>unknownnet\<close> fails.
\<close>

lemma network_name_resolution:
  "network this (ChainName s) =
     (if \<exists>chain \<in> set CHAINS. toLowerCase (ch_name chain) = toLowerCase s
      then Inr this else Inl UnsupportedChain) \<and>
   (toLowerCase s = toLowerCase s' \<longrightarrow> chainStringToId s = chainStringToId s') \<and>
   chainStringToId ''sepolia'' = Some sepolia_id \<and>
   network this (ChainName ''unknownnet'') = Inl UnsupportedChain"
proof (intro conjI)
  show "network this (ChainName s) =
     (if \<exists>chain \<in> set CHAINS. toLowerCase (ch_name chain) = toLowerCase s
      then Inr this else Inl UnsupportedChain)"
    unfolding network_name chainStringToId_None_iff by simp
  show "toLowerCase s = toLowerCase s' \<longrightarrow> chainStringToId s = chainStringToId s'"
    by (rule impI) (rule chainStringToId_case_insensitive)
  show "chainStringToId ''sepolia'' = Some sepolia_id"
    by (rule chainStringToId_sepolia)
  show "network this (ChainName ''unknownnet'') = Inl UnsupportedChain"
    unfolding network_name chainStringToId_unknownnet by simp
qed

lemma CHAIN_MAP_zero: "CHAIN_MAP 0 = None"
  by (simp add: CHAIN_MAP_def CHAINS_def chain_ids)

lemma CHAIN_MAP_five: "CHAIN_MAP 5 = None"
  by (simp add: CHAIN_MAP_def CHAINS_def chain_ids)

text \<open>
  C3. Chain resolution is to accept a numeric id only if it matches an entry of the
  registry and to fail with \<open>UnsupportedChain\<close> otherwise. \<^verbatim>\<open>network\<close> does not look
  a number up: it only tests \<^verbatim>\<open>!chainId\<close>. The id \<open>5\<close> is in neither \<^verbatim>\<open>CHAINS\<close>
  nor \<^verbatim>\<open>CHAIN_MAP\<close>, and \<^verbatim>\<open>network(5)\<close> returns the client instead of failing,
  where the constructor fails on the same id with \<open>UnsupportedChain\<close> and the name
  branch fails on a name that is not registered.
\<close>

theorem network_accepts_unregistered_id:
  "5 \<notin> set (map ch_id CHAINS) \<and> CHAIN_MAP 5 = None \<and>
   network mainnet_client (ChainNumber (Num 5)) = Inr mainnet_client \<and>
   new_GenericContractLogic viem_chains_known
     \<lparr>p_chainId = 5, p_type = ''BOND'', p_abi = ''BOND_ABI'', p_options = None\<rparr>
     = Inl UnsupportedChain \<and>
   network mainnet_client (ChainName ''unknownnet'') = Inl UnsupportedChain"
proof (intro conjI)
  show "5 \<notin> set (map ch_id CHAINS)" by (simp add: CHAINS_def chain_ids)
  show "CHAIN_MAP 5 = None" by (rule CHAIN_MAP_five)
  show "network mainnet_client (ChainNumber (Num 5)) = Inr mainnet_client"
    by (simp add: network_number)
  show "new_GenericContractLogic viem_chains_known
     \<lparr>p_chainId = 5, p_type = ''BOND'', p_abi = ''BOND_ABI'', p_options = None\<rparr>
     = Inl UnsupportedChain"
    by (simp add: new_GenericContractLogic_def CHAIN_MAP_five)
  show "network mainnet_client (ChainName ''unknownnet'') = Inl UnsupportedChain"
    unfolding network_name chainStringToId_unknownnet by simp
qed

text \<open>
  C10. For every argument that resolves to a supported chain (a name of the registry, or
  an id of \<^verbatim>\<open>CHAIN_MAP\<close>), \<^verbatim>\<open>network\<close> returns the object it was called on, every
  field as it was: the resolved id is only tested and the client's chain stays.
\<close>

theorem network_returns_this:
  assumes "case ident of ChainName s \<Rightarrow> chainStringToId s \<noteq> None
           | ChainNumber v \<Rightarrow> (\<exists>n. v = Num (of_nat n) \<and> CHAIN_MAP n \<noteq> None)"
  shows "\<exists>result. network this ident = Inr result \<and> result = this \<and>
           chainObj result = chainObj this \<and> chainId result = chainId this \<and>
           contractType result = contractType this \<and> abi result = abi this \<and>
           publicClient result = publicClient this \<and> walletClient result = walletClient this"
proof (cases ident)
  case (ChainName s)
  then show ?thesis using assms by (simp add: network_name)
next
  case (ChainNumber v)
  then obtain n where v: "v = Num (of_nat n)" and m: "CHAIN_MAP n \<noteq> None"
    using assms by auto
  have "n \<noteq> 0"
  proof
    assume "n = 0"
    then show False using m CHAIN_MAP_zero by simp
  qed
  then show ?thesis using ChainNumber v by (simp add: network_number)
qed

theorem network_returns_this_witness:
  "chainStringToId ''sepolia'' \<noteq> None \<and>
   network mainnet_client (ChainName ''sepolia'') = Inr mainnet_client \<and>
   CHAIN_MAP mainnet_id \<noteq> None \<and>
   network mainnet_client (ChainNumber (Num (of_nat mainnet_id))) = Inr mainnet_client \<and>
   chainId mainnet_client = mainnet_id"
proof -
  have h: "case ChainName ''sepolia'' of ChainName s \<Rightarrow> chainStringToId s \<noteq> None
           | ChainNumber v \<Rightarrow> (\<exists>n. v = Num (of_nat n) \<and> CHAIN_MAP n \<noteq> None)"
    by (simp add: chainStringToId_sepolia)
  have m: "CHAIN_MAP mainnet_id \<noteq> None"
    by (simp add: CHAIN_MAP_def CHAINS_def chain_ids)
  then have h2: "case ChainNumber (Num (of_nat mainnet_id)) of
             ChainName s \<Rightarrow> chainStringToId s \<noteq> None
           | ChainNumber v \<Rightarrow> (\<exists>n. v = Num (of_nat n) \<and> CHAIN_MAP n \<noteq> None)"
    by auto
  have c: "chainId mainnet_client = mainnet_id" by (simp add: mainnet_client_def)
  have a: "network mainnet_client (ChainName ''sepolia'') = Inr mainnet_client"
    using network_returns_this [OF h, of mainnet_client] by simp
  have b: "network mainnet_client (ChainNumber (Num (of_nat mainnet_id))) = Inr mainnet_client"
    using network_returns_this [OF h2, of mainnet_client] by simp
  show ?thesis using a b c m chainStringToId_sepolia by simp
qed

section \<open>Properties of the per-chain cache\<close>

lemma new_chainId:
  "new_GenericContractLogic viem_chains params = Inr obj \<Longrightarrow> chainId obj = p_chainId params"
  by (auto simp: new_GenericContractLogic_def split: option.splits)

lemma getInstance_cached:
  "instances st cid = Some r \<Longrightarrow> getInstance viem_chains cid type abi' st = (Inr r, st)"
  by (simp add: getInstance_def)

lemma getInstance_fresh:
  "instances st cid = None \<Longrightarrow>
   new_GenericContractLogic viem_chains
      \<lparr>p_chainId = cid, p_type = type, p_abi = abi', p_options = None\<rparr> = Inr obj \<Longrightarrow>
   getInstance viem_chains cid type abi' st =
     (Inr (length (objects st)),
      st\<lparr>objects := objects st @ [obj],
         instances := (instances st)(cid \<mapsto> length (objects st))\<rparr>)"
  by (simp add: getInstance_def)

lemma getInstance_failed:
  "instances st cid = None \<Longrightarrow>
   new_GenericContractLogic viem_chains
      \<lparr>p_chainId = cid, p_type = type, p_abi = abi', p_options = None\<rparr> = Inl e \<Longrightarrow>
   getInstance viem_chains cid type abi' st = (Inl e, st)"
  by (simp add: getInstance_def)

lemma getInstance_result_cached:
  "getInstance viem_chains cid type abi' st = (Inr r, st') \<Longrightarrow> instances st' cid = Some r"
  by (auto simp: getInstance_def split: option.splits sum.splits)

lemma construct_instances:
  "instances (snd (construct_obj viem_chains params st)) = instances st"
  by (simp add: construct_obj_def split: sum.splits)

lemma getInstance_sound:
  assumes c: "cache_sound st"
  shows "cache_sound (snd (getInstance viem_chains cid type abi' st))"
proof (cases "instances st cid")
  case (Some r)
  then show ?thesis using c by (simp add: getInstance_def)
next
  case None
  let ?p = "\<lparr>p_chainId = cid, p_type = type, p_abi = abi', p_options = None\<rparr>"
  show ?thesis
  proof (cases "new_GenericContractLogic viem_chains ?p")
    case (Inl e)
    then show ?thesis using c None by (simp add: getInstance_def)
  next
    case (Inr obj)
    have cid: "chainId obj = cid" using new_chainId [OF Inr] by simp
    let ?st = "st\<lparr>objects := objects st @ [obj],
                  instances := (instances st)(cid \<mapsto> length (objects st))\<rparr>"
    have "cache_sound ?st"
      unfolding cache_sound_def
    proof (intro allI impI)
      fix c' r assume a: "instances ?st c' = Some r"
      show "r < length (objects ?st) \<and> chainId (objects ?st ! r) = c'"
      proof (cases "c' = cid")
        case True
        then have "r = length (objects st)" using a by simp
        then show ?thesis using True cid by (simp add: nth_append)
      next
        case False
        then have "instances st c' = Some r" using a by simp
        then have "r < length (objects st) \<and> chainId (objects st ! r) = c'"
          using c by (simp add: cache_sound_def)
        then show ?thesis by (simp add: nth_append)
      qed
    qed
    then show ?thesis using None Inr by (simp add: getInstance_def)
  qed
qed

lemma construct_sound:
  assumes c: "cache_sound st"
  shows "cache_sound (snd (construct_obj viem_chains params st))"
proof (cases "new_GenericContractLogic viem_chains params")
  case (Inl e)
  then show ?thesis using c by (simp add: construct_obj_def)
next
  case (Inr obj)
  have "cache_sound (st\<lparr>objects := objects st @ [obj]\<rparr>)"
    unfolding cache_sound_def
  proof (intro allI impI)
    fix c' r assume "instances (st\<lparr>objects := objects st @ [obj]\<rparr>) c' = Some r"
    then have "r < length (objects st) \<and> chainId (objects st ! r) = c'"
      using c by (simp add: cache_sound_def)
    then show "r < length (objects (st\<lparr>objects := objects st @ [obj]\<rparr>)) \<and>
               chainId (objects (st\<lparr>objects := objects st @ [obj]\<rparr>) ! r) = c'"
      by (simp add: nth_append)
  qed
  then show ?thesis using Inr by (simp add: construct_obj_def)
qed

lemma run_op_sound: "cache_sound st \<Longrightarrow> cache_sound (run_op viem_chains st op)"
  by (cases op) (simp_all add: getInstance_sound construct_sound)

lemma run_ops_sound: "cache_sound st \<Longrightarrow> cache_sound (run_ops viem_chains ops st)"
  unfolding run_ops_def
  by (induction ops arbitrary: st) (simp_all add: run_op_sound)

lemma after_ops_sound: "cache_sound (after_ops viem_chains ops)"
  unfolding after_ops_def
  by (rule run_ops_sound) (simp add: cache_sound_def empty_store_def)

text \<open>An entry of the cache and the object it refers to stay for the rest of the run.\<close>

lemma getInstance_keeps:
  assumes "instances st c = Some r" and "r < length (objects st)"
  shows "instances (snd (getInstance viem_chains cid type abi' st)) c = Some r \<and>
         objects (snd (getInstance viem_chains cid type abi' st)) ! r = objects st ! r \<and>
         r < length (objects (snd (getInstance viem_chains cid type abi' st)))"
  using assms
  by (auto simp: getInstance_def nth_append split: option.splits sum.splits)

lemma construct_keeps:
  assumes "instances st c = Some r" and "r < length (objects st)"
  shows "instances (snd (construct_obj viem_chains params st)) c = Some r \<and>
         objects (snd (construct_obj viem_chains params st)) ! r = objects st ! r \<and>
         r < length (objects (snd (construct_obj viem_chains params st)))"
  using assms
  by (auto simp: construct_obj_def nth_append split: sum.splits)

lemma run_op_keeps:
  assumes "instances st c = Some r" and "r < length (objects st)"
  shows "instances (run_op viem_chains st op) c = Some r \<and>
         objects (run_op viem_chains st op) ! r = objects st ! r \<and>
         r < length (objects (run_op viem_chains st op))"
proof (cases op)
  case (GetInstance cid type abi')
  then show ?thesis using getInstance_keeps [OF assms] by simp
next
  case (Construct params)
  then show ?thesis using construct_keeps [OF assms] by simp
qed

lemma run_ops_keeps:
  "instances st c = Some r \<Longrightarrow> r < length (objects st) \<Longrightarrow>
     instances (run_ops viem_chains ops st) c = Some r \<and>
     objects (run_ops viem_chains ops st) ! r = objects st ! r"
proof (induction ops arbitrary: st)
  case Nil
  then show ?case by (simp add: run_ops_def)
next
  case (Cons op ops)
  note k = run_op_keeps [OF Cons.prems, of viem_chains op]
  have "run_ops viem_chains (op # ops) st = run_ops viem_chains ops (run_op viem_chains st op)"
    by (simp add: run_ops_def)
  then show ?case using Cons.IH [of "run_op viem_chains st op"] k by simp
qed

text \<open>
  C9 (as amended). In a store reached by \<^verbatim>\<open>getInstance\<close> calls and direct constructor
  calls, the cache holds for a chain id at most one object, an object of that chain id;
  \<^verbatim>\<open>getInstance\<close> returns the cached object of the chain id when there is one and
  leaves the store as it is, and otherwise constructs an object, caches it and returns
  it; once \<^verbatim>\<open>getInstance\<close> has returned an object for a chain id, every later call
  with that chain id (whatever its contract type and abi, and whatever calls come in
  between) returns the identical object. A direct constructor call does not touch the
  cache.
\<close>

theorem getInstance_singleton:
  assumes st: "st = after_ops viem_chains ops"
  shows "(\<forall>c r. instances st c = Some r \<longrightarrow>
               r < length (objects st) \<and> chainId (objects st ! r) = c) \<and>
         (\<forall>r. instances st cid = Some r \<longrightarrow>
               getInstance viem_chains cid type abi' st = (Inr r, st)) \<and>
         (\<forall>obj. instances st cid = None \<and>
                 new_GenericContractLogic viem_chains
                   \<lparr>p_chainId = cid, p_type = type, p_abi = abi', p_options = None\<rparr> = Inr obj \<longrightarrow>
               getInstance viem_chains cid type abi' st =
                 (Inr (length (objects st)),
                  st\<lparr>objects := objects st @ [obj],
                     instances := (instances st)(cid \<mapsto> length (objects st))\<rparr>)) \<and>
         (\<forall>r st'. getInstance viem_chains cid type abi' st = (Inr r, st') \<longrightarrow>
               getInstance viem_chains cid type2 abi2 (run_ops viem_chains ops' st') =
                 (Inr r, run_ops viem_chains ops' st') \<and>
               r < length (objects st') \<and> chainId (objects st' ! r) = cid \<and>
               objects (run_ops viem_chains ops' st') ! r = objects st' ! r) \<and>
         instances (snd (construct_obj viem_chains params st)) = instances st"
proof (intro conjI allI impI)
  fix c r assume "instances st c = Some r"
  then show "r < length (objects st)" "chainId (objects st ! r) = c"
    using after_ops_sound [of viem_chains ops] st by (simp_all add: cache_sound_def)
next
  fix r assume "instances st cid = Some r"
  then show "getInstance viem_chains cid type abi' st = (Inr r, st)" by (rule getInstance_cached)
next
  fix obj
  assume "instances st cid = None \<and>
                 new_GenericContractLogic viem_chains
                   \<lparr>p_chainId = cid, p_type = type, p_abi = abi', p_options = None\<rparr> = Inr obj"
  then show "getInstance viem_chains cid type abi' st =
                 (Inr (length (objects st)),
                  st\<lparr>objects := objects st @ [obj],
                     instances := (instances st)(cid \<mapsto> length (objects st))\<rparr>)"
    using getInstance_fresh by blast
next
  fix r st' assume g: "getInstance viem_chains cid type abi' st = (Inr r, st')"
  have cached: "instances st' cid = Some r" using getInstance_result_cached [OF g] .
  have "st' = snd (getInstance viem_chains cid type abi' st)" using g by simp
  then have sound: "cache_sound st'"
    using getInstance_sound [OF after_ops_sound [of viem_chains ops]] st by simp
  show lt: "r < length (objects st')" using sound cached by (simp add: cache_sound_def)
  show "chainId (objects st' ! r) = cid" using sound cached by (simp add: cache_sound_def)
  note k = run_ops_keeps [OF cached lt, of viem_chains ops']
  show "getInstance viem_chains cid type2 abi2 (run_ops viem_chains ops' st') =
                 (Inr r, run_ops viem_chains ops' st')"
    using k by (simp add: getInstance_cached)
  show "objects (run_ops viem_chains ops' st') ! r = objects st' ! r" using k by simp
next
  show "instances (snd (construct_obj viem_chains params st)) = instances st"
    by (rule construct_instances)
qed

lemma CHAIN_MAP_mainnet: "CHAIN_MAP mainnet_id \<noteq> None"
  by (simp add: CHAIN_MAP_def CHAINS_def mainnet_id_def base_id_def optimism_id_def arbitrum_id_def
  avalanche_id_def polygon_id_def bsc_id_def sepolia_id_def)

lemma new_mainnet_client:
  "new_GenericContractLogic viem_chains_known
     \<lparr>p_chainId = mainnet_id, p_type = ''BOND'', p_abi = ''BOND_ABI'', p_options = None\<rparr>
     = Inr mainnet_client"
  using CHAIN_MAP_mainnet
  by (auto simp: new_GenericContractLogic_def viem_chains_known_def mainnet_client_def
      split: option.splits)

lemma getInstance_first:
  "getInstance viem_chains_known mainnet_id ''BOND'' ''BOND_ABI'' empty_store = (Inr 0, store_one)"
  by (simp add: getInstance_def new_mainnet_client empty_store_def store_one_def)

lemma construct_second:
  "construct_obj viem_chains_known mainnet_params store_one = (Inr 1, store_two)"
  by (simp add: construct_obj_def mainnet_params_def new_mainnet_client store_one_def store_two_def)

lemma after_two_ops:
  "after_ops viem_chains_known
     [GetInstance mainnet_id ''BOND'' ''BOND_ABI'', Construct mainnet_params] = store_two"
  by (simp add: after_ops_def run_ops_def getInstance_first construct_second)

theorem getInstance_singleton_witness:
  "store_two = after_ops viem_chains_known
     [GetInstance mainnet_id ''BOND'' ''BOND_ABI'', Construct mainnet_params] \<and>
   instances store_two mainnet_id = Some 0 \<and>
   chainId (objects store_two ! 0) = mainnet_id \<and>
   getInstance viem_chains_known mainnet_id ''ERC20'' ''ERC20_ABI'' store_two
     = (Inr 0, store_two) \<and>
   getInstance viem_chains_known mainnet_id ''BOND'' ''BOND_ABI''
     (run_ops viem_chains_known [Construct mainnet_params] store_two)
     = (Inr 0, run_ops viem_chains_known [Construct mainnet_params] store_two) \<and>
   empty_store = after_ops viem_chains_known [] \<and>
   instances empty_store mainnet_id = None \<and>
   getInstance viem_chains_known mainnet_id ''BOND'' ''BOND_ABI'' empty_store
     = (Inr 0, store_one)"
proof -
  have e2: "store_two = after_ops viem_chains_known
     [GetInstance mainnet_id ''BOND'' ''BOND_ABI'', Construct mainnet_params]"
    by (simp add: after_two_ops)
  have i2: "instances store_two mainnet_id = Some 0" by (simp add: store_two_def)
  note t2 = getInstance_singleton
    [OF e2, of mainnet_id "''ERC20''" "''ERC20_ABI''" "''BOND''" "''BOND_ABI''"
       "[Construct mainnet_params]"]
  from t2 i2 have a: "chainId (objects store_two ! 0) = mainnet_id" by blast
  from t2 i2 have b: "getInstance viem_chains_known mainnet_id ''ERC20'' ''ERC20_ABI'' store_two
     = (Inr 0, store_two)" by blast
  from t2 b have c: "getInstance viem_chains_known mainnet_id ''BOND'' ''BOND_ABI''
     (run_ops viem_chains_known [Construct mainnet_params] store_two)
     = (Inr 0, run_ops viem_chains_known [Construct mainnet_params] store_two)" by blast
  have e0: "empty_store = after_ops viem_chains_known []"
    by (simp add: after_ops_def run_ops_def)
  have i0: "instances empty_store mainnet_id = None" by (simp add: empty_store_def)
  have s: "empty_store\<lparr>objects := objects empty_store @ [mainnet_client],
                instances := (instances empty_store)(mainnet_id \<mapsto> length (objects empty_store))\<rparr>
          = store_one"
    by (simp add: empty_store_def store_one_def)
  note t0 = getInstance_singleton
    [OF e0, of mainnet_id "''BOND''" "''BOND_ABI''" "''ERC20''" "''ERC20_ABI''" "[]"]
  from t0 i0 new_mainnet_client have
    "getInstance viem_chains_known mainnet_id ''BOND'' ''BOND_ABI'' empty_store =
       (Inr (length (objects empty_store)),
        empty_store\<lparr>objects := objects empty_store @ [mainnet_client],
                instances := (instances empty_store)(mainnet_id \<mapsto> length (objects empty_store))\<rparr>)"
    by blast
  then have d: "getInstance viem_chains_known mainnet_id ''BOND'' ''BOND_ABI'' empty_store
     = (Inr 0, store_one)"
    unfolding s by (simp add: empty_store_def)
  show ?thesis by (intro conjI e2 i2 a b c e0 i0 d)
qed

text \<open>
  After one \<^verbatim>\<open>getInstance\<close> call and one direct constructor call for chain id \<open>1\<close>
  there are two objects of that chain id.
\<close>

theorem direct_construction_counterexample:
  "objects (after_ops viem_chains_known
     [GetInstance mainnet_id ''BOND'' ''BOND_ABI'', Construct mainnet_params])
     = [mainnet_client, mainnet_client] \<and>
   chainId mainnet_client = mainnet_id \<and>
   fst (construct_obj viem_chains_known mainnet_params store_one) = Inr 1 \<and>
   fst (getInstance viem_chains_known mainnet_id ''BOND'' ''BOND_ABI'' empty_store) = Inr 0"
  by (simp add: after_two_ops store_two_def mainnet_client_def getInstance_first construct_second)

section \<open>Properties of the write pipeline\<close>

lemma then_step_Inr:
  "then_step m f = (Inr y, tr) \<longleftrightarrow>
     (\<exists>x tr1 tr2. m = (Inr x, tr1) \<and> f x = (Inr y, tr2) \<and> tr = tr1 @ tr2)"
  by (auto simp: then_step_def split: prod.splits sum.splits)

lemma then_step_Inl:
  "then_step m f = (Inl e, tr) \<longleftrightarrow>
     (m = (Inl e, tr) \<or> (\<exists>x tr1 tr2. m = (Inr x, tr1) \<and> f x = (Inl e, tr2) \<and> tr = tr1 @ tr2))"
  by (auto simp: then_step_def split: prod.splits sum.splits)

lemma notify_Inr:
  "notify cb arg ev = (Inr u, tr) \<longleftrightarrow> (tr = fired cb ev \<and> (\<forall>f. cb = Some f \<longrightarrow> f arg = None))"
  by (auto simp: notify_def fired_def split: option.splits)

lemma notify_Inl:
  "notify cb arg ev = (Inl e, tr) \<longleftrightarrow> (tr = [ev] \<and> (\<exists>f. cb = Some f \<and> f arg = Some e))"
  by (auto simp: notify_def split: option.splits)

lemma notify_events:
  "notify cb arg ev = (r, tr) \<Longrightarrow> tr = [] \<or> tr = [ev]"
  by (auto simp: notify_def split: option.splits)

lemma write_try_success:
  "write_try env wc sa params = (Inr receipt, tr) \<longleftrightarrow>
     (\<exists>request tx.
        simulateContract env sa = Inr request \<and>
        (\<forall>f. onRequestSignature params = Some f \<longrightarrow> f () = None) \<and>
        writeContract env wc request = Inr tx \<and>
        (\<forall>f. onSigned params = Some f \<longrightarrow> f tx = None) \<and>
        waitForTransactionReceipt env tx = Inr receipt \<and>
        (\<forall>f. onSuccess params = Some f \<longrightarrow> f receipt = None) \<and>
        tr = [SimulateContract sa] @ fired (onRequestSignature params) OnRequestSignature
             @ [WriteContract request] @ fired (onSigned params) (OnSigned tx)
             @ [WaitForTransactionReceipt tx] @ fired (onSuccess params) (OnSuccess receipt))"
  unfolding write_try_def then_step_Inr notify_Inr
  by auto

lemma write_try_simulation_fails:
  "simulateContract env sa = Inl e \<Longrightarrow>
     write_try env wc sa params = (Inl e, [SimulateContract sa])"
  by (simp add: write_try_def then_step_def)

lemma write_try_first_event:
  "write_try env wc sa params = (r, tr) \<Longrightarrow>
     \<exists>tr'. tr = SimulateContract sa # tr' \<and> (\<forall>ev \<in> set tr'. \<not> is_simulate ev)"
  unfolding write_try_def then_step_def notify_def
  by (auto split: sum.splits option.splits prod.splits)

lemma initializeWallet_events:
  "initializeWallet env this = (r, this', tr) \<Longrightarrow> tr = [] \<or> tr = [RequestAddresses]"
  by (auto simp: initializeWallet_def Let_def split: option.splits sum.splits)

lemma alignChain_events:
  "alignChain env this wc = (r, tr) \<Longrightarrow> \<forall>ev \<in> set tr. \<not> is_callback ev \<and> \<not> is_simulate ev"
  by (auto simp: alignChain_def split: option.splits if_splits)

lemma write_prelude_events:
  assumes "write_prelude env this = (r, this', tr)"
  shows "\<forall>ev \<in> set tr. \<not> is_callback ev \<and> \<not> is_simulate ev"
proof -
  obtain r0 this0 tr0 where i: "initializeWallet env this = (r0, this0, tr0)"
    by (cases "initializeWallet env this")
  have tr0: "\<forall>ev \<in> set tr0. \<not> is_callback ev \<and> \<not> is_simulate ev"
    using initializeWallet_events [OF i] by auto
  show ?thesis
  proof (cases "r0 = None \<and> (\<exists>wc. walletClient this0 = Some wc \<and>
                  \<not> (wc_account wc = None \<or> wc_account wc = Some []))")
    case False
    then have "tr = tr0"
      using assms i by (auto simp: write_prelude_def split: option.splits if_splits)
    then show ?thesis using tr0 by simp
  next
    case True
    then obtain wc where wc: "walletClient this0 = Some wc"
      and acc: "\<not> (wc_account wc = None \<or> wc_account wc = Some [])" and r0: "r0 = None"
      by auto
    obtain ra tra where al: "alignChain env this0 wc = (ra, tra)"
      by (cases "alignChain env this0 wc")
    have "\<exists>tr1. tr = tr0 @ tra @ tr1 \<and> (tr1 = [] \<or> tr1 = [GetAddresses])"
      using assms i wc acc r0 al
      by (auto simp: write_prelude_def then_step_def split: sum.splits prod.splits)
    then show ?thesis using tr0 alignChain_events [OF al] by auto
  qed
qed

lemma write_prelude_wallet:
  "write_prelude env this = (Inr (wc, account), this', tr) \<Longrightarrow> walletClient this' = Some wc"
  by (auto simp: write_prelude_def then_step_def
      split: option.splits if_splits sum.splits prod.splits)

lemma write_catch_events:
  "write_catch an params e = (out, tr) \<Longrightarrow>
     tr = fired (onError params) (OnError (annotate an e)) \<and> (\<forall>receipt. out \<noteq> Resolved (Some receipt))"
  by (auto simp: write_catch_def notify_def fired_def split: option.splits)

lemma fired_events: "ev' \<in> set (fired cb ev) \<Longrightarrow> ev' = ev"
  by (auto simp: fired_def split: option.splits)

text \<open>The concrete runs used below.\<close>

lemmas env_defs = env_ok_def env_sim_fails_def env_no_provider_def reverted_def

lemmas client_defs = mainnet_client_def user_wallet_def mainnet_client_bound_def
  createWalletClient_def createPublicClient_def

lemma prelude_ok:
  "write_prelude env_ok mainnet_client =
     (Inr (user_wallet, Some ''0xuser''), mainnet_client_bound, [RequestAddresses, GetAddresses])"
  by (simp add: write_prelude_def initializeWallet_def alignChain_def then_step_def first_def
      env_defs client_defs)

lemma prelude_sim_fails:
  "write_prelude env_sim_fails mainnet_client =
     (Inr (user_wallet, Some ''0xuser''), mainnet_client_bound, [RequestAddresses, GetAddresses])"
  by (simp add: write_prelude_def initializeWallet_def alignChain_def then_step_def first_def
      env_defs client_defs)

lemma sim_args_approve:
  "simulationArgs_of env_sim_fails mainnet_client_bound (Some ''0xuser'') approve_params
     = approve_simulation"
  "simulationArgs_of env_ok mainnet_client_bound (Some ''0xuser'') approve_params
     = approve_simulation"
  by (simp_all add: simulationArgs_of_def approve_params_def approve_simulation_def env_defs client_defs)

lemma try_sim_fails:
  "write_try env_sim_fails user_wallet approve_simulation approve_params =
     (Inl reverted, [SimulateContract approve_simulation])"
  by (rule write_try_simulation_fails) (simp add: env_sim_fails_def)

lemma approve_context_eq:
  "\<lparr>an_functionName = functionName approve_params, an_args = args approve_params,
    an_simulationArgs = approve_simulation,
    an_value = value approve_params, an_account = Some ''0xuser'',
    an_walletClient = Some user_wallet\<rparr> = approve_context"
  by (simp add: approve_context_def approve_params_def)

lemma try_ok:
  "write_try env_ok user_wallet approve_simulation approve_params =
     (Inr tx_receipt,
      [SimulateContract approve_simulation, OnRequestSignature,
       WriteContract approve_simulation, OnSigned ''0xtx'', WaitForTransactionReceipt ''0xtx'',
       OnSuccess tx_receipt])"
  by (simp add: write_try_def then_step_def notify_def env_ok_def approve_params_def
      tx_receipt_def)

lemma op_ok:
  "write_op env_ok mainnet_client approve_params =
     (Resolved (Some tx_receipt), mainnet_client_bound,
      [RequestAddresses, GetAddresses, SimulateContract approve_simulation, OnRequestSignature,
       WriteContract approve_simulation, OnSigned ''0xtx'', WaitForTransactionReceipt ''0xtx'',
       OnSuccess tx_receipt])"
  unfolding write_op_def prelude_ok
  by (simp add: Let_def sim_args_approve try_ok)

lemma wallet_bound: "walletClient mainnet_client_bound = Some user_wallet"
  by (simp add: mainnet_client_bound_def)

lemma catch_reverted:
  "write_catch approve_context approve_params reverted =
     (Resolved None, [OnError (Error (External ''execution reverted'') (Some approve_context))])"
  by (simp add: write_catch_def notify_def annotate_def reverted_def approve_params_def)

lemma op_sim_fails:
  "write_op env_sim_fails mainnet_client approve_params =
     (Resolved None, mainnet_client_bound,
      [RequestAddresses, GetAddresses, SimulateContract approve_simulation,
       OnError (Error (External ''execution reverted'') (Some approve_context))])"
  unfolding write_op_def prelude_sim_fails
  by (simp add: Let_def sim_args_approve try_sim_fails wallet_bound approve_context_eq
      catch_reverted)

text \<open>
  C7. A write whose simulation fails invokes neither \<^verbatim>\<open>onRequestSignature\<close> nor
  \<^verbatim>\<open>onSigned\<close>. A write that returns a receipt has, after the events of wallet
  set-up, exactly these events in this order: the simulation,
  \<^verbatim>\<open>onRequestSignature\<close>, the submission, \<^verbatim>\<open>onSigned\<close> with the transaction hash,
  the wait for the receipt, \<^verbatim>\<open>onSuccess\<close> with the receipt (each callback once if it
  was supplied).
\<close>

theorem write_op_callback_order:
  assumes w: "write_op env this params = (out, this', tr)"
  shows "(\<forall>sa e. SimulateContract sa \<in> set tr \<and> simulateContract env sa = Inl e \<longrightarrow>
            OnRequestSignature \<notin> set tr \<and> (\<forall>tx. OnSigned tx \<notin> set tr)) \<and>
         (\<forall>receipt. out = Resolved (Some receipt) \<longrightarrow>
            (\<exists>pre wc sa request tx.
               tr = pre @ [SimulateContract sa]
                    @ fired (onRequestSignature params) OnRequestSignature
                    @ [WriteContract request]
                    @ fired (onSigned params) (OnSigned tx)
                    @ [WaitForTransactionReceipt tx]
                    @ fired (onSuccess params) (OnSuccess receipt) \<and>
               (\<forall>ev \<in> set pre. \<not> is_callback ev) \<and>
               walletClient this' = Some wc \<and>
               simulateContract env sa = Inr request \<and>
               writeContract env wc request = Inr tx \<and>
               waitForTransactionReceipt env tx = Inr receipt))"
proof -
  obtain r1 this1 tr1 where p: "write_prelude env this = (r1, this1, tr1)"
    by (cases "write_prelude env this")
  note pre = write_prelude_events [OF p]
  show ?thesis
  proof (cases r1)
    case (Inl e)
    then have "out = Rejected e" "tr = tr1"
      using w p by (simp_all add: write_op_def)
    then show ?thesis using pre by (auto simp: all_conj_distrib)
  next
    case (Inr v)
    obtain wc account where v: "v = (wc, account)" by (cases v)
    let ?sa = "simulationArgs_of env this1 account params"
    obtain r2 tr2 where t: "write_try env wc ?sa params = (r2, tr2)"
      by (cases "write_try env wc ?sa params")
    from write_try_first_event [OF t] obtain tr2' where
      tr2: "tr2 = SimulateContract ?sa # tr2'" and ns: "\<forall>ev \<in> set tr2'. \<not> is_simulate ev"
      by blast
    have wcl: "walletClient this1 = Some wc"
      using write_prelude_wallet p Inr v by blast
    show ?thesis
    proof (cases r2)
      case ok: (Inr receipt)
      have o: "out = Resolved (Some receipt)" "tr = tr1 @ tr2" "this' = this1"
        using w p Inr v t ok by (simp_all add: write_op_def Let_def)
      have t': "write_try env wc ?sa params = (Inr receipt, tr2)" using t ok by simp
      from t' [unfolded write_try_success] obtain request tx where
        s: "simulateContract env ?sa = Inr request"
           "writeContract env wc request = Inr tx"
           "waitForTransactionReceipt env tx = Inr receipt"
           "tr2 = [SimulateContract ?sa] @ fired (onRequestSignature params) OnRequestSignature
             @ [WriteContract request] @ fired (onSigned params) (OnSigned tx)
             @ [WaitForTransactionReceipt tx] @ fired (onSuccess params) (OnSuccess receipt)"
        by blast
      have first: "\<forall>sa e. SimulateContract sa \<in> set tr \<and> simulateContract env sa = Inl e \<longrightarrow>
            OnRequestSignature \<notin> set tr \<and> (\<forall>tx. OnSigned tx \<notin> set tr)"
      proof (intro allI impI)
        fix sa e assume a: "SimulateContract sa \<in> set tr \<and> simulateContract env sa = Inl e"
        then have "sa = ?sa" using o(2) tr2 ns pre by auto
        then show "OnRequestSignature \<notin> set tr \<and> (\<forall>tx. OnSigned tx \<notin> set tr)"
          using a s(1) by simp
      qed
      have second: "\<exists>pre wc sa request tx.
               tr = pre @ [SimulateContract sa]
                    @ fired (onRequestSignature params) OnRequestSignature
                    @ [WriteContract request]
                    @ fired (onSigned params) (OnSigned tx)
                    @ [WaitForTransactionReceipt tx]
                    @ fired (onSuccess params) (OnSuccess receipt) \<and>
               (\<forall>ev \<in> set pre. \<not> is_callback ev) \<and>
               walletClient this' = Some wc \<and>
               simulateContract env sa = Inr request \<and>
               writeContract env wc request = Inr tx \<and>
               waitForTransactionReceipt env tx = Inr receipt"
        apply (rule exI [of _ tr1], rule exI [of _ wc], rule exI [of _ ?sa])
        apply (rule exI [of _ request], rule exI [of _ tx])
        using o s pre wcl by simp
      show ?thesis using first second o(1) by simp
    next
      case bad: (Inl e)
      let ?an = "\<lparr>an_functionName = functionName params, an_args = args params,
                        an_simulationArgs = ?sa, an_value = value params,
                        an_account = account, an_walletClient = walletClient this1\<rparr>"
      obtain out3 tr3 where c: "write_catch ?an params e = (out3, tr3)"
        by (cases "write_catch ?an params e")
      have o: "out = out3" "tr = tr1 @ tr2 @ tr3"
        using w p Inr v t bad c by (simp_all add: write_op_def Let_def)
      note c3 = write_catch_events [OF c]
      have first: "\<forall>sa e. SimulateContract sa \<in> set tr \<and> simulateContract env sa = Inl e \<longrightarrow>
            OnRequestSignature \<notin> set tr \<and> (\<forall>tx. OnSigned tx \<notin> set tr)"
      proof (intro allI impI)
        fix sa e' assume a: "SimulateContract sa \<in> set tr \<and> simulateContract env sa = Inl e'"
        have "SimulateContract sa \<notin> set tr3" using c3 by (auto dest: fired_events)
        then have "sa = ?sa" using a o(2) tr2 ns pre by auto
        then have "tr2 = [SimulateContract ?sa]"
          using a t write_try_simulation_fails [of env ?sa e' wc params] by simp
        then show "OnRequestSignature \<notin> set tr \<and> (\<forall>tx. OnSigned tx \<notin> set tr)"
          using o(2) pre c3 by (auto dest: fired_events)
      qed
      show ?thesis using first o(1) c3 by simp
    qed
  qed
qed

theorem write_op_callback_order_witness:
  "write_op env_ok mainnet_client approve_params =
     (Resolved (Some tx_receipt), mainnet_client_bound,
      [RequestAddresses, GetAddresses, SimulateContract approve_simulation, OnRequestSignature,
       WriteContract approve_simulation, OnSigned ''0xtx'', WaitForTransactionReceipt ''0xtx'',
       OnSuccess tx_receipt]) \<and>
   filter is_callback
     [RequestAddresses, GetAddresses, SimulateContract approve_simulation, OnRequestSignature,
       WriteContract approve_simulation, OnSigned ''0xtx'', WaitForTransactionReceipt ''0xtx'',
       OnSuccess tx_receipt] = [OnRequestSignature, OnSigned ''0xtx'', OnSuccess tx_receipt] \<and>
   write_op env_sim_fails mainnet_client approve_params =
     (Resolved None, mainnet_client_bound,
      [RequestAddresses, GetAddresses, SimulateContract approve_simulation,
       OnError (Error (External ''execution reverted'') (Some approve_context))]) \<and>
   simulateContract env_sim_fails approve_simulation = Inl reverted \<and>
   OnRequestSignature \<notin> set
      [RequestAddresses, GetAddresses, SimulateContract approve_simulation,
       OnError (Error (External ''execution reverted'') (Some approve_context))]"
  using write_op_callback_order [OF op_ok] write_op_callback_order [OF op_sim_fails]
    op_ok op_sim_fails
  by (simp add: env_sim_fails_def)

text \<open>
  A failure before the \<^verbatim>\<open>try\<close> block is not caught: without a wallet and without
  \<^verbatim>\<open>window.ethereum\<close> the write is rejected and \<^verbatim>\<open>onError\<close> is not called.
\<close>

theorem no_provider_counterexample:
  "write_op env_no_provider mainnet_client approve_params =
     (Rejected (Error NoProviderFound None), mainnet_client, [])"
  by (simp add: write_op_def write_prelude_def initializeWallet_def env_defs mainnet_client_def)

text \<open>
  The \<^verbatim>\<open>try\<close> block throws \<open>e\<close> exactly when one of its steps does: the simulation,
  \<^verbatim>\<open>onRequestSignature\<close>, the submission, \<^verbatim>\<open>onSigned\<close>, the wait for the receipt
  or \<^verbatim>\<open>onSuccess\<close>, the steps before it having succeeded.
\<close>

lemma write_try_failure_iff:
  "(\<exists>tr. write_try env wc sa params = (Inl e, tr)) \<longleftrightarrow>
     simulateContract env sa = Inl e \<or>
     (\<exists>request. simulateContract env sa = Inr request \<and>
        ((\<exists>f. onRequestSignature params = Some f \<and> f () = Some e) \<or>
         (\<forall>f. onRequestSignature params = Some f \<longrightarrow> f () = None) \<and>
         (writeContract env wc request = Inl e \<or>
          (\<exists>tx. writeContract env wc request = Inr tx \<and>
             ((\<exists>f. onSigned params = Some f \<and> f tx = Some e) \<or>
              (\<forall>f. onSigned params = Some f \<longrightarrow> f tx = None) \<and>
              (waitForTransactionReceipt env tx = Inl e \<or>
               (\<exists>receipt. waitForTransactionReceipt env tx = Inr receipt \<and>
                  (\<exists>f. onSuccess params = Some f \<and> f receipt = Some e))))))))"
  unfolding write_try_def then_step_def notify_def
  by (auto split: sum.splits option.splits prod.splits)

text \<open>
  C1 (as amended). When wallet initialisation, the account test, chain alignment and
  \<^verbatim>\<open>getAddresses\<close> have succeeded, an exception \<open>e\<close> of the \<^verbatim>\<open>try\<close> block
  (simulation, submission, wait for the receipt, or one of the three callbacks) is
  caught, given the properties \<^verbatim>\<open>functionName\<close>, \<^verbatim>\<open>args\<close>, \<^verbatim>\<open>simulationArgs\<close>,
  \<^verbatim>\<open>value\<close>, \<^verbatim>\<open>account\<close> and \<^verbatim>\<open>walletClient\<close>, passed to \<^verbatim>\<open>onError\<close> if
  supplied, and the write resolves with no value if \<^verbatim>\<open>onError\<close> returns. An
  exception of the steps before the \<^verbatim>\<open>try\<close> block rejects the write, and no callback
  is invoked.
\<close>

theorem write_op_failure_handling:
  "(write_prelude env this = (Inr (wc, account), this', tr) \<and>
    write_try env wc (simulationArgs_of env this' account params) params = (Inl e, tr') \<and>
    (\<forall>f. onError params = Some f \<longrightarrow>
       f (annotate \<lparr>an_functionName = functionName params, an_args = args params,
                    an_simulationArgs = simulationArgs_of env this' account params,
                    an_value = value params, an_account = account,
                    an_walletClient = Some wc\<rparr> e) = None)
    \<longrightarrow> write_op env this params =
          (Resolved None, this',
           tr @ tr' @
           fired (onError params)
             (OnError (annotate \<lparr>an_functionName = functionName params, an_args = args params,
                    an_simulationArgs = simulationArgs_of env this' account params,
                    an_value = value params, an_account = account,
                    an_walletClient = Some wc\<rparr> e)))) \<and>
   (write_prelude env2 this2 = (Inl e2, this2', tr2) \<longrightarrow>
      write_op env2 this2 params2 = (Rejected e2, this2', tr2) \<and>
      (\<forall>ev \<in> set tr2. \<not> is_callback ev))"
proof (intro conjI impI)
  assume a: "write_prelude env this = (Inr (wc, account), this', tr) \<and>
    write_try env wc (simulationArgs_of env this' account params) params = (Inl e, tr') \<and>
    (\<forall>f. onError params = Some f \<longrightarrow>
       f (annotate \<lparr>an_functionName = functionName params, an_args = args params,
                    an_simulationArgs = simulationArgs_of env this' account params,
                    an_value = value params, an_account = account,
                    an_walletClient = Some wc\<rparr> e) = None)"
  let ?an = "\<lparr>an_functionName = functionName params, an_args = args params,
                    an_simulationArgs = simulationArgs_of env this' account params,
                    an_value = value params, an_account = account,
                    an_walletClient = Some wc\<rparr>"
  from a have wcl: "walletClient this' = Some wc" using write_prelude_wallet by blast
  from a have "write_catch ?an params e = (Resolved None, fired (onError params) (OnError (annotate ?an e)))"
    by (auto simp: write_catch_def notify_def fired_def split: option.splits)
  then show "write_op env this params =
          (Resolved None, this', tr @ tr' @ fired (onError params) (OnError (annotate ?an e)))"
    using a wcl by (simp add: write_op_def Let_def)
next
  assume p: "write_prelude env2 this2 = (Inl e2, this2', tr2)"
  then show "write_op env2 this2 params2 = (Rejected e2, this2', tr2)"
    by (simp add: write_op_def)
  show "\<forall>ev \<in> set tr2. \<not> is_callback ev"
    using write_prelude_events [OF p] by simp
qed

theorem write_op_failure_handling_witness:
  "write_prelude (env_sim_fails :: string list env) mainnet_client =
     (Inr (user_wallet, Some ''0xuser''), mainnet_client_bound, [RequestAddresses, GetAddresses]) \<and>
   write_try env_sim_fails user_wallet approve_simulation approve_params =
     (Inl reverted, [SimulateContract approve_simulation]) \<and>
   onError approve_params \<noteq> None \<and>
   write_op env_sim_fails mainnet_client approve_params =
     (Resolved None, mainnet_client_bound,
      [RequestAddresses, GetAddresses, SimulateContract approve_simulation,
       OnError (Error (External ''execution reverted'') (Some approve_context))]) \<and>
   write_prelude (env_no_provider :: string list env) mainnet_client =
     (Inl (Error NoProviderFound None), mainnet_client, []) \<and>
   write_op env_no_provider mainnet_client approve_params =
     (Rejected (Error NoProviderFound None), mainnet_client, [])"
proof -
  note h1 = prelude_sim_fails [where 'a = "string list"]
  note h2 = try_sim_fails
  have h3: "\<forall>f. onError approve_params = Some f \<longrightarrow> f (annotate approve_context reverted) = None"
    by (simp add: approve_params_def)
  have h4: "write_prelude env_no_provider mainnet_client =
     (Inl (Error NoProviderFound None :: string list thrown), mainnet_client, [])"
    by (simp add: write_prelude_def initializeWallet_def env_defs mainnet_client_def)
  have h5: "onError approve_params \<noteq> None" by (simp add: approve_params_def)
  have f: "fired (onError approve_params) ev = [ev]" for ev :: "string list event"
    by (simp add: fired_def approve_params_def)
  have an: "annotate approve_context reverted = Error (External ''execution reverted'') (Some approve_context)"
    by (simp add: annotate_def reverted_def)
  from write_op_failure_handling
    [of env_sim_fails mainnet_client user_wallet "Some ''0xuser''" mainnet_client_bound
        "[RequestAddresses, GetAddresses]" approve_params reverted
        "[SimulateContract approve_simulation]"
        env_no_provider mainnet_client "Error NoProviderFound None" mainnet_client "[]"
        approve_params]
  show ?thesis
    unfolding sim_args_approve approve_context_eq
    using h1 h2 h3 h4 h5 by (simp add: f an)
qed

section \<open>Properties of token creation\<close>

lemma env_ok_fields:
  "simulateContract env_ok sa = Inr sa"
  "writeContract env_ok wc request = Inr ''0xtx''"
  "waitForTransactionReceipt env_ok ''0xtx'' = Inr tx_receipt"
  "readContract env_ok a b c = Inr 7"
  by (simp_all add: env_ok_def tx_receipt_def)

lemma write_op_env_ok_silent:
  assumes "onRequestSignature p = None" "onSigned p = None" "onSuccess p = None"
  shows "write_op env_ok mainnet_client p =
     (Resolved (Some tx_receipt), mainnet_client_bound,
      [RequestAddresses, GetAddresses,
       SimulateContract (simulationArgs_of env_ok mainnet_client_bound (Some ''0xuser'') p),
       WriteContract (simulationArgs_of env_ok mainnet_client_bound (Some ''0xuser'') p),
       WaitForTransactionReceipt ''0xtx''])"
  unfolding write_op_def prelude_ok
  by (simp add: Let_def write_try_def then_step_def notify_def env_ok_fields assms)

lemma write_op_env_ok_notified:
  assumes "onRequestSignature p = Some (\<lambda>u. None)" "onSigned p = Some (\<lambda>tx. None)"
    "onSuccess p = Some (\<lambda>r. None)"
  shows "write_op env_ok mainnet_client p =
     (Resolved (Some tx_receipt), mainnet_client_bound,
      [RequestAddresses, GetAddresses,
       SimulateContract (simulationArgs_of env_ok mainnet_client_bound (Some ''0xuser'') p),
       OnRequestSignature,
       WriteContract (simulationArgs_of env_ok mainnet_client_bound (Some ''0xuser'') p),
       OnSigned ''0xtx'', WaitForTransactionReceipt ''0xtx'', OnSuccess tx_receipt])"
  unfolding write_op_def prelude_ok
  by (simp add: Let_def write_try_def then_step_def notify_def env_ok_fields assms)

lemma built_scenario_C:
  "BondContract_generateCreateArgs wei_decimal restructure_copy params_scenario_C =
     Inr (\<lparr>tp_name = ''Token'', tp_symbol = ''TKN'', tp_uri = None\<rparr>,
          \<lparr>bp_mintRoyalty = 100, bp_burnRoyalty = 100, bp_reserveToken = ''0xreserve'',
           bp_maxSupply = 100 * 10 ^ 18, bp_stepRanges = [50 * 10 ^ 18, 100 * 10 ^ 18],
           bp_stepPrices = [0, 5000000]\<rparr>)"
    by (simp add: params_scenario_C_def BondContract_generateCreateArgs_def
      restructure_copy_def wei_decimal_def bindE_def merge_same_price_def merge_from.simps
      toUpperCase_def upper_letters_def lower_letters_def)

lemma built_logic_scenario_C:
  "BondContractLogic_generateCreateArgs wei_decimal (params_scenario_C\<lparr>tokenType := ERC20\<rparr>) =
     Inr (\<lparr>tp_name = ''Token'', tp_symbol = ''tkn'', tp_uri = None\<rparr>,
          \<lparr>bp_mintRoyalty = 100, bp_burnRoyalty = 100, bp_reserveToken = ''0xreserve'',
           bp_maxSupply = 100 * 10 ^ 18, bp_stepRanges = [100 * 10 ^ 18],
           bp_stepPrices = [5000000]\<rparr>)"
    by (simp add: params_scenario_C_def BondContractLogic_generateCreateArgs_def
      wei_decimal_def bindE_def merge_same_price_def merge_from.simps)

lemma BondContract_createToken_ignores_callbacks:
  "BondContract_createToken wei restructureStepData env this params cbs =
   BondContract_createToken wei restructureStepData env this params cbs'"
  by (simp add: BondContract_createToken_def)

text \<open>
  C4. \<^verbatim>\<open>createToken\<close> is to read \<^verbatim>\<open>creationFee\<close> and then issue the write with the
  caller's four lifecycle callbacks passed on. \<^verbatim>\<open>BondContractLogic.createToken\<close> does;
  \<^verbatim>\<open>BondContract.createToken\<close> does not pass them: on a creation that succeeds, with
  all four callbacks supplied, it invokes none of them, where the sibling invokes
  \<^verbatim>\<open>onRequestSignature\<close>, \<^verbatim>\<open>onSigned\<close> and \<^verbatim>\<open>onSuccess\<close>.
\<close>

theorem BondContract_createToken_drops_callbacks:
  "fst (BondContract_createToken wei_decimal restructure_copy env_ok mainnet_client
          params_scenario_C all_callbacks) = Resolved (Some tx_receipt) \<and>
   callbacks_invoked (snd (snd (BondContract_createToken wei_decimal restructure_copy env_ok
          mainnet_client params_scenario_C all_callbacks))) = [] \<and>
   fst (BondContractLogic_createToken wei_decimal env_ok mainnet_client
          params_scenario_C all_callbacks) = Resolved (Some tx_receipt) \<and>
   callbacks_invoked (snd (snd (BondContractLogic_createToken wei_decimal env_ok
          mainnet_client params_scenario_C all_callbacks)))
     = [''onRequestSignature'', ''onSigned'', ''onSuccess'']"
proof -
  have r: "read_op env_ok mainnet_client ''creationFee'' = (Inr 7, [ReadContract ''creationFee''])"
    by (simp add: read_op_def env_ok_fields)
  have a: "BondContract_createToken wei_decimal restructure_copy env_ok mainnet_client
          params_scenario_C all_callbacks =
       (Resolved (Some tx_receipt), mainnet_client_bound,
        ReadContract ''creationFee'' # snd (snd (write_op env_ok mainnet_client
           \<lparr>functionName = ''createToken'',
            args = (\<lparr>tp_name = ''Token'', tp_symbol = ''TKN'', tp_uri = None\<rparr>,
          \<lparr>bp_mintRoyalty = 100, bp_burnRoyalty = 100, bp_reserveToken = ''0xreserve'',
           bp_maxSupply = 100 * 10 ^ 18, bp_stepRanges = [50 * 10 ^ 18, 100 * 10 ^ 18],
           bp_stepPrices = [0, 5000000]\<rparr>), value = Some 7,
           onRequestSignature = None, onSigned = None, onSuccess = None, onError = None\<rparr>)))"
    unfolding BondContract_createToken_def create_with_def built_scenario_C r
    by (simp add: write_op_env_ok_silent)
  have b: "BondContractLogic_createToken wei_decimal env_ok mainnet_client
          params_scenario_C all_callbacks =
       (Resolved (Some tx_receipt), mainnet_client_bound,
        ReadContract ''creationFee'' # snd (snd (write_op env_ok mainnet_client
           \<lparr>functionName = ''createToken'',
            args = (\<lparr>tp_name = ''Token'', tp_symbol = ''tkn'', tp_uri = None\<rparr>,
          \<lparr>bp_mintRoyalty = 100, bp_burnRoyalty = 100, bp_reserveToken = ''0xreserve'',
           bp_maxSupply = 100 * 10 ^ 18, bp_stepRanges = [100 * 10 ^ 18],
           bp_stepPrices = [5000000]\<rparr>), value = Some 7,
           onRequestSignature = Some (\<lambda>u. None), onSigned = Some (\<lambda>tx. None),
           onSuccess = Some (\<lambda>r. None), onError = Some (\<lambda>e. None)\<rparr>)))"
    unfolding BondContractLogic_createToken_def create_with_def built_logic_scenario_C r
    by (simp add: write_op_env_ok_notified all_callbacks_def)
  show ?thesis
    unfolding a b
    by (simp add: write_op_env_ok_silent write_op_env_ok_notified callbacks_invoked_def
        map_filter_def)
qed

end
